theory Spec2Isabelle
  imports Complex_Main "HOL-Library.Word"
begin

section \<open>Conventions of the embedding\<close>

text \<open>
  The Go sources are \<^verbatim>\<open>ddsketch/mapping/logarithmic_mapping.go\<close>,
  \<^verbatim>\<open>ddsketch/ddsketch.go\<close> and \<^verbatim>\<open>dataset/dataset.go\<close>.

  \<^item> \<^verbatim>\<open>float64\<close> is read as \<^typ>\<open>real\<close>: \<^verbatim>\<open>math.Log\<close> is \<^term>\<open>ln\<close>,
    \<^verbatim>\<open>math.Exp\<close> is \<^term>\<open>exp\<close>, \<^verbatim>\<open>math.Log1p x\<close> is \<^term>\<open>ln (1 + x)\<close>, and
    the arithmetic of the mapping is exact. Infinities and NaN operands are outside the
    model; a NaN that a function returns is the value \<open>NaN\<close> of the result type below.
  \<^item> Where the position of an element is read off a \<^verbatim>\<open>float64\<close> product (the rank of
    the exact baseline), the product is rounded as the machine rounds it: \<open>round64\<close> below.
  \<^item> \<^verbatim>\<open>int\<close> (64 bits in Go) is read as \<^typ>\<open>int\<close>; the conversion
    \<^verbatim>\<open>int(x)\<close> of a float discards the fraction.
  \<^item> \<^verbatim>\<open>int32\<close> is \<^typ>\<open>32 word\<close>: subtraction wraps, \<^term>\<open>sint\<close> reads the signed value.
  \<^item> \<^verbatim>\<open>errors.New(msg)\<close> is the message itself; a function that returns
    \<^verbatim>\<open>(x, error)\<close> returns \<open>Inl msg\<close> or \<open>Inr x\<close>.
\<close>

type_synonym error = string
type_synonym int32 = "32 word"

text \<open>\<^verbatim>\<open>int(x)\<close> on a float: truncation towards zero.\<close>

definition go_int :: "real \<Rightarrow> int" where
  "go_int x = (if 0 \<le> x then \<lfloor>x\<rfloor> else \<lceil>x\<rceil>)"

text \<open>
  The result of a \<^verbatim>\<open>float64\<close> operation is the exact result rounded to the nearest
  \<^verbatim>\<open>float64\<close>, a tie going to the even significand. A \<^verbatim>\<open>float64\<close> has 53 significant
  bits: between \<open>2^e\<close> and \<open>2^(e+1)\<close> the values are \<open>2^(e-52)\<close> apart, and below
  \<open>2^(-1022)\<close> (the subnormal values) they are \<open>2^(-1074)\<close> apart. Overflow to an
  infinity (from \<open>2^1024\<close> on) is outside the model.
\<close>

definition round_half_even :: "real \<Rightarrow> int" where
  "round_half_even x =
     (let f = \<lfloor>x\<rfloor>; r = x - real_of_int f
      in if r < 1 / 2 then f
         else if 1 / 2 < r then f + 1
         else if even f then f else f + 1)"

definition ulp64 :: "real \<Rightarrow> real" where
  "ulp64 x = 2 powr (real_of_int (max \<lfloor>log 2 \<bar>x\<bar>\<rfloor> (- 1022)) - 52)"

definition round64 :: "real \<Rightarrow> real" where
  "round64 x = (if x = 0 then 0 else ulp64 x * real_of_int (round_half_even (x / ulp64 x)))"

definition MinInt16 :: int where
  "MinInt16 = - 32768"

definition MaxInt16 :: int where
  "MaxInt16 = 32767"

section \<open>The logarithmic index mapping\<close>

record LogarithmicMapping =
  relativeAccuracy :: real
  multiplier :: real
  normalizedIndexOffset :: real
  minIndexableValue :: real
  maxIndexableValue :: real

text \<open>
  The package constants \<^verbatim>\<open>minNormalFloat64\<close> and \<^verbatim>\<open>expOverflow\<close> are declared
  in a file of the package that is not among the sources; they are parameters of every
  function that reads them.
\<close>

definition computeMinIndexableValue :: "real \<Rightarrow> LogarithmicMapping \<Rightarrow> real" where
  "computeMinIndexableValue minNormalFloat64 m =
     max (exp ((real_of_int MinInt16 - normalizedIndexOffset m) / multiplier m + 1))
         (minNormalFloat64 * (1 + relativeAccuracy m) / (1 - relativeAccuracy m))"

definition computeMaxIndexableValue :: "real \<Rightarrow> LogarithmicMapping \<Rightarrow> real" where
  "computeMaxIndexableValue expOverflow m =
     min (exp ((real_of_int MaxInt16 - normalizedIndexOffset m) / multiplier m - 1))
         (exp expOverflow / (1 + relativeAccuracy m))"

definition NewLogarithmicMapping :: "real \<Rightarrow> real \<Rightarrow> real \<Rightarrow> error + LogarithmicMapping" where
  "NewLogarithmicMapping minNormalFloat64 expOverflow relAcc =
     (if relAcc \<le> 0 \<or> 1 \<le> relAcc
      then Inl ''The relative accuracy must be between 0 and 1.''
      else
        let m0 = \<lparr> relativeAccuracy = relAcc,
                   multiplier = 1 / ln (1 + 2 * relAcc / (1 - relAcc)),
                   normalizedIndexOffset = 0,
                   minIndexableValue = 0,
                   maxIndexableValue = 0 \<rparr>;
            m1 = m0 \<lparr> minIndexableValue := computeMinIndexableValue minNormalFloat64 m0 \<rparr>;
            m2 = m1 \<lparr> maxIndexableValue := computeMaxIndexableValue expOverflow m1 \<rparr>
        in Inr m2)"

definition NewLogarithmicMappingWithGamma ::
  "real \<Rightarrow> real \<Rightarrow> real \<Rightarrow> real \<Rightarrow> error + LogarithmicMapping" where
  "NewLogarithmicMappingWithGamma minNormalFloat64 expOverflow gamma indexOffset =
     (if gamma \<le> 1
      then Inl ''Gamma must be greater than 1.''
      else
        let m0 = \<lparr> relativeAccuracy = 1 - 2 / (1 + gamma),
                   multiplier = 1 / ln gamma,
                   normalizedIndexOffset = indexOffset,
                   minIndexableValue = 0,
                   maxIndexableValue = 0 \<rparr>;
            m1 = m0 \<lparr> minIndexableValue := computeMinIndexableValue minNormalFloat64 m0 \<rparr>;
            m2 = m1 \<lparr> maxIndexableValue := computeMaxIndexableValue expOverflow m1 \<rparr>
        in Inr m2)"

definition Index :: "LogarithmicMapping \<Rightarrow> real \<Rightarrow> int" where
  "Index m v =
     (let index = ln v * multiplier m + normalizedIndexOffset m
      in if 0 \<le> index then go_int index else go_int index - 1)"

definition Value :: "LogarithmicMapping \<Rightarrow> int \<Rightarrow> real" where
  "Value m index =
     exp ((real_of_int index - normalizedIndexOffset m) / multiplier m) * (1 + relativeAccuracy m)"

definition MinIndexableValue :: "LogarithmicMapping \<Rightarrow> real" where
  "MinIndexableValue m = minIndexableValue m"

definition MaxIndexableValue :: "LogarithmicMapping \<Rightarrow> real" where
  "MaxIndexableValue m = maxIndexableValue m"

definition RelativeAccuracy :: "LogarithmicMapping \<Rightarrow> real" where
  "RelativeAccuracy m = relativeAccuracy m"

text \<open>
  \<^verbatim>\<open>Equals\<close> takes a value of the interface \<^verbatim>\<open>IndexMapping\<close> and asserts its dynamic
  type. The logarithmic mapping is the one implementation among the sources; any other
  implementation is \<open>Other_mapping\<close>.
\<close>

datatype index_mapping = Logarithmic LogarithmicMapping | Other_mapping

text \<open>
  Modelled from the spec: \<^verbatim>\<open>withinTolerance\<close> is called by \<^verbatim>\<open>Equals\<close> and defined in
  a file of the package that is not among the sources. The spec describes the comparison as
  agreement ``within an absolute tolerance''.
\<close>

definition withinTolerance :: "real \<Rightarrow> real \<Rightarrow> real \<Rightarrow> bool" where
  "withinTolerance x y tolerance = (\<bar>x - y\<bar> \<le> tolerance)"

definition Equals :: "LogarithmicMapping \<Rightarrow> index_mapping \<Rightarrow> bool" where
  "Equals m other =
     (case other of
        Other_mapping \<Rightarrow> False
      | Logarithmic oth \<Rightarrow>
          (let tol = 1 / 10 ^ 12
           in withinTolerance (multiplier m) (multiplier oth) tol
              \<and> withinTolerance (normalizedIndexOffset m) (normalizedIndexOffset oth) tol))"

section \<open>The store interface\<close>

text \<open>
  \<^verbatim>\<open>store.Store\<close> is an interface whose package is not among the sources. A sketch is
  modelled over any implementation: the state of the store is a type variable and the
  methods are a table of functions on it. The methods the sketch calls for their effect
  return the new state (\<^verbatim>\<open>MergeWith\<close> returns the new state of both operands, so that an
  implementation may touch either); the methods it calls for their result are functions of
  the state.
\<close>

record 's Store =
  store_AddWithCount :: "int \<Rightarrow> int32 \<Rightarrow> 's \<Rightarrow> 's"
  store_TotalCount :: "'s \<Rightarrow> int32"
  store_IsEmpty :: "'s \<Rightarrow> bool"
  store_MaxIndex :: "'s \<Rightarrow> error + int"
  store_MinIndex :: "'s \<Rightarrow> error + int"
  store_KeyAtRank :: "real \<Rightarrow> 's \<Rightarrow> int"
  store_MergeWith :: "'s \<Rightarrow> 's \<Rightarrow> 's \<times> 's"
  store_Copy :: "'s \<Rightarrow> 's"

section \<open>The sketch\<close>

text \<open>
  \<^verbatim>\<open>DDSketch\<close> embeds an \<^verbatim>\<open>IndexMapping\<close> and holds a store. Every constructor of
  the package builds it on a logarithmic mapping, so the embedded field has that type.
\<close>

record 's DDSketch =
  IndexMapping :: LogarithmicMapping
  store :: 's

definition NewDDSketch :: "LogarithmicMapping \<Rightarrow> 's \<Rightarrow> 's DDSketch" where
  "NewDDSketch indexMapping st = \<lparr> IndexMapping = indexMapping, store = st \<rparr>"

text \<open>
  A method with a pointer receiver that returns \<^verbatim>\<open>error\<close> returns the error
  (\<open>None\<close> for \<^verbatim>\<open>nil\<close>) together with the sketch after the call.
\<close>

definition AddWithCount ::
  "'s Store \<Rightarrow> 's DDSketch \<Rightarrow> real \<Rightarrow> int32 \<Rightarrow> error option \<times> 's DDSketch" where
  "AddWithCount S s v count =
     (if v < MinIndexableValue (IndexMapping s) \<or> v > MaxIndexableValue (IndexMapping s)
      then (Some ''input value is outside the range that is tracked by the sketch'', s)
      else if count <s 0
      then (Some ''count cannot be negative'', s)
      else (None, s \<lparr> store := store_AddWithCount S (Index (IndexMapping s) v) count (store s) \<rparr>))"

definition Add :: "'s Store \<Rightarrow> 's DDSketch \<Rightarrow> real \<Rightarrow> error option \<times> 's DDSketch" where
  "Add S s v = AddWithCount S s v 1"

definition Copy :: "'s Store \<Rightarrow> 's DDSketch \<Rightarrow> 's DDSketch" where
  "Copy S s = \<lparr> IndexMapping = IndexMapping s, store = store_Copy S (store s) \<rparr>"

definition GetCount :: "'s Store \<Rightarrow> 's DDSketch \<Rightarrow> int32" where
  "GetCount S s = store_TotalCount S (store s)"

definition IsEmpty :: "'s Store \<Rightarrow> 's DDSketch \<Rightarrow> bool" where
  "IsEmpty S s = store_IsEmpty S (store s)"

definition GetIndexAtQuantile :: "'s Store \<Rightarrow> 's DDSketch \<Rightarrow> real \<Rightarrow> error + int" where
  "GetIndexAtQuantile S s quantile =
     (if quantile < 0 \<or> quantile > 1
      then Inl ''quantile must be between 0 and 1''
      else
        let count = GetCount S s
        in if count = 0
           then Inl ''no such element exists''
           else
             let rank = quantile * real_of_int (sint (count - 1))
             in Inr (store_KeyAtRank S rank (store s)))"

text \<open>On an error Go returns \<^verbatim>\<open>(math.NaN(), err)\<close>; the model returns the error.\<close>

definition GetValueAtQuantile :: "'s Store \<Rightarrow> 's DDSketch \<Rightarrow> real \<Rightarrow> error + real" where
  "GetValueAtQuantile S s quantile =
     (case GetIndexAtQuantile S s quantile of
        Inl err \<Rightarrow> Inl err
      | Inr key \<Rightarrow> Inr (Value (IndexMapping s) key))"

fun GetValuesAtQuantiles :: "'s Store \<Rightarrow> 's DDSketch \<Rightarrow> real list \<Rightarrow> error + real list" where
  "GetValuesAtQuantiles S s [] = Inr []"
| "GetValuesAtQuantiles S s (q # qs) =
     (case GetValueAtQuantile S s q of
        Inl err \<Rightarrow> Inl err
      | Inr val \<Rightarrow>
          (case GetValuesAtQuantiles S s qs of
             Inl err \<Rightarrow> Inl err
           | Inr vals \<Rightarrow> Inr (val # vals)))"

definition GetMaxValue :: "'s Store \<Rightarrow> 's DDSketch \<Rightarrow> error + real" where
  "GetMaxValue S s =
     (case store_MaxIndex S (store s) of
        Inl err \<Rightarrow> Inl err
      | Inr maxIndex \<Rightarrow> Inr (Value (IndexMapping s) maxIndex))"

definition GetMinValue :: "'s Store \<Rightarrow> 's DDSketch \<Rightarrow> error + real" where
  "GetMinValue S s =
     (case store_MinIndex S (store s) of
        Inl err \<Rightarrow> Inl err
      | Inr minIndex \<Rightarrow> Inr (Value (IndexMapping s) minIndex))"

text \<open>\<^verbatim>\<open>MergeWith\<close> returns the error, the receiver and the other sketch after the call.\<close>

definition MergeWith ::
  "'s Store \<Rightarrow> 's DDSketch \<Rightarrow> 's DDSketch \<Rightarrow> error option \<times> 's DDSketch \<times> 's DDSketch" where
  "MergeWith S s other =
     (if \<not> Equals (IndexMapping s) (Logarithmic (IndexMapping other))
      then (Some ''cannot merge sketches with different index mappings'', s, other)
      else
        let (st, ost) = store_MergeWith S (store s) (store other)
        in (None, s \<lparr> store := st \<rparr>, other \<lparr> store := ost \<rparr>))"

section \<open>The dense stores\<close>

type_synonym bin_list = "(int \<times> int32) list"

text \<open>
  Modelled from the spec: the three store variants (package \<^verbatim>\<open>store\<close>, not among the
  sources). A store is ``a mapping from bucket index to count''; it is kept as the list of
  its bins in ascending index order. The policy is the variant: ``unbounded dense'',
  ``collapsing-lowest'' or ``collapsing-highest'', the last two with \<^verbatim>\<open>maxNumBins\<close>.
\<close>

datatype collapsing = Unbounded | CollapsingLowest int | CollapsingHighest int

record DenseStore =
  bins :: bin_list
  policy :: collapsing

text \<open>Modelled from the spec: the store is ``created empty at Sketch construction''.\<close>

definition NewDenseStore :: DenseStore where
  "NewDenseStore = \<lparr> bins = [], policy = Unbounded \<rparr>"

text \<open>Modelled from the spec: the collapsing-lowest store, created empty.\<close>

definition NewCollapsingLowestDenseStore :: "int \<Rightarrow> DenseStore" where
  "NewCollapsingLowestDenseStore maxNumBins = \<lparr> bins = [], policy = CollapsingLowest maxNumBins \<rparr>"

text \<open>Modelled from the spec: the collapsing-highest store, created empty.\<close>

definition NewCollapsingHighestDenseStore :: "int \<Rightarrow> DenseStore" where
  "NewCollapsingHighestDenseStore maxNumBins = \<lparr> bins = [], policy = CollapsingHighest maxNumBins \<rparr>"

text \<open>
  Modelled from the spec: \<^verbatim>\<open>AddWithCount\<close> ``increments the bucket at index by count''.
  This is the increment on the ascending list of bins.
\<close>

fun bump :: "int \<Rightarrow> int32 \<Rightarrow> bin_list \<Rightarrow> bin_list" where
  "bump i c [] = [(i, c)]"
| "bump i c ((j, d) # bs) =
     (if i < j then (i, c) # (j, d) # bs
      else if i = j then (j, d + c) # bs
      else (j, d) # bump i c bs)"

text \<open>
  Modelled from the spec: collapsing-lowest. ``The buckets at the low end of the currently
  retained span are merged into the lowest retained bucket (their counts are summed into
  it) until the bound is satisfied again.''
\<close>

definition collapse_lowest :: "nat \<Rightarrow> bin_list \<Rightarrow> bin_list" where
  "collapse_lowest B bs =
     (let k = length bs - B
      in case drop k bs of
           [] \<Rightarrow> bs
         | (j, d) # rest \<Rightarrow> (j, d + sum_list (map snd (take k bs))) # rest)"

text \<open>
  Modelled from the spec: collapsing-highest, ``symmetric --- collapses buckets at the high
  end into the highest retained bucket''.
\<close>

definition collapse_highest :: "nat \<Rightarrow> bin_list \<Rightarrow> bin_list" where
  "collapse_highest B bs =
     (let n = min B (length bs)
      in case rev (take n bs) of
           [] \<Rightarrow> bs
         | (j, d) # rest \<Rightarrow> rev ((j, d + sum_list (map snd (drop n bs))) # rest))"

text \<open>Modelled from the spec: the collapse step of each variant.\<close>

fun collapse :: "collapsing \<Rightarrow> bin_list \<Rightarrow> bin_list" where
  "collapse Unbounded bs = bs"
| "collapse (CollapsingLowest maxNumBins) bs = collapse_lowest (nat maxNumBins) bs"
| "collapse (CollapsingHighest maxNumBins) bs = collapse_highest (nat maxNumBins) bs"

text \<open>
  Modelled from the spec: \<^verbatim>\<open>AddWithCount(index, count)\<close> of the store; it ``may trigger
  a collapse before applying the increment'' is read as: the bins after the call are the
  incremented bins, collapsed to the bound. A zero count adds no bin, since the bins are the
  indices with nonzero count.
\<close>

definition dense_AddWithCount :: "int \<Rightarrow> int32 \<Rightarrow> DenseStore \<Rightarrow> DenseStore" where
  "dense_AddWithCount index count st =
     (if count = 0 then st
      else st \<lparr> bins := collapse (policy st) (bump index count (bins st)) \<rparr>)"

text \<open>Modelled from the spec: \<^verbatim>\<open>TotalCount\<close> is the ``sum of all bucket counts''.\<close>

definition dense_TotalCount :: "DenseStore \<Rightarrow> int32" where
  "dense_TotalCount st = sum_list (map snd (bins st))"

text \<open>Modelled from the spec: \<^verbatim>\<open>IsEmpty\<close> is ``true iff \<^verbatim>\<open>TotalCount() == 0\<close>''.\<close>

definition dense_IsEmpty :: "DenseStore \<Rightarrow> bool" where
  "dense_IsEmpty st = (dense_TotalCount st = 0)"

text \<open>
  Modelled from the spec: \<^verbatim>\<open>MaxIndex\<close> is the ``largest index holding nonzero count'' and
  fails ``with EmptyState if the store is empty''. The spec names the error, not its message.
\<close>

definition dense_MaxIndex :: "DenseStore \<Rightarrow> error + int" where
  "dense_MaxIndex st = (if bins st = [] then Inl ''EmptyState'' else Inr (fst (last (bins st))))"

text \<open>
  Modelled from the spec: \<^verbatim>\<open>MinIndex\<close> is the ``smallest index holding nonzero count'' and
  fails ``with EmptyState if the store is empty''.
\<close>

definition dense_MinIndex :: "DenseStore \<Rightarrow> error + int" where
  "dense_MinIndex st = (case bins st of [] \<Rightarrow> Inl ''EmptyState'' | (i, c) # bs \<Rightarrow> Inr i)"

text \<open>
  Modelled from the spec: \<^verbatim>\<open>KeyAtRank\<close> is ``the index containing the element whose
  0-based position among all counted elements, sorted ascending, is floor(rank)'', clamped
  ``to the nearest valid bucket''. The second argument is the count of the bins already
  passed. The spec does not say what an empty store returns; the model returns 0.
\<close>

fun key_at_rank :: "real \<Rightarrow> int \<Rightarrow> bin_list \<Rightarrow> int" where
  "key_at_rank rank n [] = 0"
| "key_at_rank rank n [(i, c)] = i"
| "key_at_rank rank n ((i, c) # b # bs) =
     (if rank < real_of_int (n + sint c) then i else key_at_rank rank (n + sint c) (b # bs))"

text \<open>Modelled from the spec: \<^verbatim>\<open>KeyAtRank\<close> of the store.\<close>

definition dense_KeyAtRank :: "real \<Rightarrow> DenseStore \<Rightarrow> int" where
  "dense_KeyAtRank rank st = key_at_rank rank 0 (bins st)"

text \<open>
  Modelled from the spec: \<^verbatim>\<open>MergeWith\<close> ``folds every bucket of other into this store
  via repeated conceptual AddWithCount''; the other store is only read.
\<close>

definition dense_MergeWith :: "DenseStore \<Rightarrow> DenseStore \<Rightarrow> DenseStore \<times> DenseStore" where
  "dense_MergeWith st other =
     (fold (\<lambda>(i, c) acc. dense_AddWithCount i c acc) (bins other) st, other)"

text \<open>Modelled from the spec: \<^verbatim>\<open>Copy\<close> is an ``independent deep copy''; a value is its own copy.\<close>

definition dense_Copy :: "DenseStore \<Rightarrow> DenseStore" where
  "dense_Copy st = st"

text \<open>Modelled from the spec: the method table of the dense stores.\<close>

definition DenseStore_methods :: "DenseStore Store" where
  "DenseStore_methods =
     \<lparr> store_AddWithCount = dense_AddWithCount,
       store_TotalCount = dense_TotalCount,
       store_IsEmpty = dense_IsEmpty,
       store_MaxIndex = dense_MaxIndex,
       store_MinIndex = dense_MinIndex,
       store_KeyAtRank = dense_KeyAtRank,
       store_MergeWith = dense_MergeWith,
       store_Copy = dense_Copy \<rparr>"

section \<open>The constructors of the sketch\<close>

definition LogUnboundedDenseDDSketch :: "real \<Rightarrow> real \<Rightarrow> real \<Rightarrow> error + DenseStore DDSketch" where
  "LogUnboundedDenseDDSketch minNormalFloat64 expOverflow relAcc =
     (case NewLogarithmicMapping minNormalFloat64 expOverflow relAcc of
        Inl err \<Rightarrow> Inl err
      | Inr indexMapping \<Rightarrow> Inr (NewDDSketch indexMapping NewDenseStore))"

definition NewDefaultDDSketch :: "real \<Rightarrow> real \<Rightarrow> real \<Rightarrow> error + DenseStore DDSketch" where
  "NewDefaultDDSketch minNormalFloat64 expOverflow relAcc =
     LogUnboundedDenseDDSketch minNormalFloat64 expOverflow relAcc"

definition LogCollapsingLowestDenseDDSketch ::
  "real \<Rightarrow> real \<Rightarrow> real \<Rightarrow> int \<Rightarrow> error + DenseStore DDSketch" where
  "LogCollapsingLowestDenseDDSketch minNormalFloat64 expOverflow relAcc maxNumBins =
     (case NewLogarithmicMapping minNormalFloat64 expOverflow relAcc of
        Inl err \<Rightarrow> Inl err
      | Inr indexMapping \<Rightarrow>
          Inr (NewDDSketch indexMapping (NewCollapsingLowestDenseStore maxNumBins)))"

definition LogCollapsingHighestDenseDDSketch ::
  "real \<Rightarrow> real \<Rightarrow> real \<Rightarrow> int \<Rightarrow> error + DenseStore DDSketch" where
  "LogCollapsingHighestDenseDDSketch minNormalFloat64 expOverflow relAcc maxNumBins =
     (case NewLogarithmicMapping minNormalFloat64 expOverflow relAcc of
        Inl err \<Rightarrow> Inl err
      | Inr indexMapping \<Rightarrow>
          Inr (NewDDSketch indexMapping (NewCollapsingHighestDenseStore maxNumBins)))"

section \<open>The exact baseline\<close>

text \<open>
  \<^verbatim>\<open>Dataset\<close> keeps every value. The field \<^verbatim>\<open>sorted\<close> is \<open>sorted_flag\<close> here. A
  slice index out of range is a run-time panic: the functions that index the slice return
  \<open>Inl\<close> of the panic, or \<open>Inr\<close> of the result and the dataset after the call.
\<close>

record Dataset =
  Values :: "real list"
  Count :: int32
  sorted_flag :: bool

datatype float64_result = NaN | Finite real

type_synonym panic = string

definition slice_index :: "'a list \<Rightarrow> int \<Rightarrow> panic + 'a" where
  "slice_index xs i =
     (if 0 \<le> i \<and> i < int (length xs) then Inr (xs ! nat i) else Inl ''index out of range'')"

definition NewDataset :: Dataset where
  "NewDataset = \<lparr> Values = [], Count = 0, sorted_flag = False \<rparr>"

definition Add_Dataset :: "Dataset \<Rightarrow> real \<Rightarrow> Dataset" where
  "Add_Dataset d v = d \<lparr> Values := Values d @ [v], Count := Count d + 1, sorted_flag := False \<rparr>"

text \<open>\<^verbatim>\<open>sort.Float64s\<close> sorts the slice in place, in increasing order.\<close>

definition sort_Dataset :: "Dataset \<Rightarrow> Dataset" where
  "sort_Dataset d =
     (if sorted_flag d then d else d \<lparr> Values := sort (Values d), sorted_flag := True \<rparr>)"

text \<open>
  \<^verbatim>\<open>rank := q * float64(d.Count-1)\<close>: the conversion of the \<^verbatim>\<open>int32\<close> is exact, the
  product is rounded.
\<close>

definition LowerQuantile :: "Dataset \<Rightarrow> real \<Rightarrow> panic + float64_result \<times> Dataset" where
  "LowerQuantile d q =
     (if q < 0 \<or> q > 1 \<or> Count d = 0
      then Inr (NaN, d)
      else
        let d' = sort_Dataset d;
            rank = round64 (q * real_of_int (sint (Count d' - 1)))
        in case slice_index (Values d') (go_int (real_of_int \<lfloor>rank\<rfloor>)) of
             Inl p \<Rightarrow> Inl p
           | Inr x \<Rightarrow> Inr (Finite x, d'))"

definition Quantile :: "Dataset \<Rightarrow> real \<Rightarrow> panic + float64_result \<times> Dataset" where
  "Quantile d q = LowerQuantile d q"

definition UpperQuantile :: "Dataset \<Rightarrow> real \<Rightarrow> panic + float64_result \<times> Dataset" where
  "UpperQuantile d q =
     (if q < 0 \<or> q > 1 \<or> Count d = 0
      then Inr (NaN, d)
      else
        let d' = sort_Dataset d;
            rank = round64 (q * real_of_int (sint (Count d' - 1)))
        in case slice_index (Values d') (go_int (real_of_int \<lceil>rank\<rceil>)) of
             Inl p \<Rightarrow> Inl p
           | Inr x \<Rightarrow> Inr (Finite x, d'))"

definition Min_Dataset :: "Dataset \<Rightarrow> panic + real \<times> Dataset" where
  "Min_Dataset d =
     (let d' = sort_Dataset d
      in case slice_index (Values d') 0 of
           Inl p \<Rightarrow> Inl p
         | Inr x \<Rightarrow> Inr (x, d'))"

definition Max_Dataset :: "Dataset \<Rightarrow> panic + real \<times> Dataset" where
  "Max_Dataset d =
     (let d' = sort_Dataset d
      in case slice_index (Values d') (int (length (Values d')) - 1) of
           Inl p \<Rightarrow> Inl p
         | Inr x \<Rightarrow> Inr (x, d'))"

definition Merge :: "Dataset \<Rightarrow> Dataset \<Rightarrow> Dataset" where
  "Merge d other = fold (\<lambda>v acc. Add_Dataset acc v) (Values other) d"

text \<open>
  A dataset built by \<^verbatim>\<open>NewDataset\<close>, \<^verbatim>\<open>Add\<close> and \<^verbatim>\<open>Merge\<close> and read by the
  queries keeps \<^verbatim>\<open>Count\<close> equal to the number of values, and has \<^verbatim>\<open>sorted\<close> set only
  when the values are in increasing order.
\<close>

definition Dataset_inv :: "Dataset \<Rightarrow> bool" where
  "Dataset_inv d =
     (sint (Count d) = int (length (Values d)) \<and> (sorted_flag d \<longrightarrow> sorted (Values d)))"

section \<open>Facts about the index computation\<close>

lemma Index_eq:
  "Index m v =
     (let x = ln v * multiplier m + normalizedIndexOffset m
      in if 0 \<le> x then \<lfloor>x\<rfloor> else \<lceil>x\<rceil> - 1)"
  by (simp add: Index_def go_int_def Let_def)

lemma Index_upper: "real_of_int (Index m v) \<le> ln v * multiplier m + normalizedIndexOffset m"
  unfolding Index_eq Let_def by (simp; linarith)

lemma Index_lower: "ln v * multiplier m + normalizedIndexOffset m - 1 \<le> real_of_int (Index m v)"
  unfolding Index_eq Let_def by (simp; linarith)

section \<open>Facts about rounding\<close>

lemma round_half_even_ge_floor: "\<lfloor>x\<rfloor> \<le> round_half_even x"
  by (simp add: round_half_even_def Let_def)

lemma round_half_even_le_ceiling: "round_half_even x \<le> \<lceil>x\<rceil>"
proof -
  have "\<lfloor>x\<rfloor> + 1 \<le> \<lceil>x\<rceil>" if "x - real_of_int \<lfloor>x\<rfloor> \<noteq> 0"
    using that by (simp add: ceiling_altdef)
  moreover have "\<lfloor>x\<rfloor> \<le> \<lceil>x\<rceil>"
    by (rule floor_le_ceiling)
  ultimately show ?thesis
    by (auto simp: round_half_even_def Let_def)
qed

lemma floor_log2_binade:
  fixes x :: real
  assumes "2 powr real_of_int e \<le> x" and "x < 2 powr (real_of_int e + 1)"
  shows "\<lfloor>log 2 x\<rfloor> = e"
proof -
  have "0 < (2::real) powr real_of_int e"
    by simp
  with assms(1) have pos: "0 < x"
    by linarith
  have "real_of_int e \<le> log 2 x"
    using assms(1) pos by (simp add: le_log_iff)
  moreover have "log 2 x < real_of_int e + 1"
    using assms(2) pos by (simp add: log_less_iff)
  ultimately show ?thesis
    by (simp add: floor_eq_iff)
qed

lemma ulp64_binade:
  assumes "2 powr real_of_int e \<le> \<bar>x\<bar>" and "\<bar>x\<bar> < 2 powr (real_of_int e + 1)"
    and "- 1022 \<le> e"
  shows "ulp64 x = 2 powr (real_of_int e - 52)"
  using floor_log2_binade [OF assms(1,2)] assms(3) by (simp add: ulp64_def)

lemma ulp64_pos: "0 < ulp64 x"
  by (simp add: ulp64_def)

text \<open>Below \<open>2^53\<close> the values of \<^verbatim>\<open>float64\<close> are at most 1 apart, and 1 is a multiple of the gap.\<close>

lemma inverse_ulp64:
  assumes "0 < x" and "x < 2 ^ 53"
  shows "\<exists>k::nat. 1 / ulp64 x = 2 ^ k"
proof -
  define e where "e = max \<lfloor>log 2 \<bar>x\<bar>\<rfloor> (- 1022)"
  have "x < 2 powr 53"
    using assms(2) by simp
  then have "log 2 x < 53"
    using assms(1) by (simp add: log_less_iff)
  then have "\<lfloor>log 2 \<bar>x\<bar>\<rfloor> \<le> 52"
    using assms(1) by (simp add: floor_le_iff)
  then have e: "e \<le> 52"
    by (simp add: e_def)
  have u: "ulp64 x = 2 powr (real_of_int e - 52)"
    by (simp add: ulp64_def e_def)
  have "1 / ulp64 x = 2 powr (- (real_of_int e - 52))"
    unfolding u by (simp only: powr_minus_divide)
  also have "- (real_of_int e - 52) = real_of_int (52 - e)"
    by simp
  also have "2 powr real_of_int (52 - e) = 2 ^ nat (52 - e)"
    using e powr_real_of_int [of 2 "52 - e"] by simp
  finally show ?thesis
    by blast
qed

lemma round64_nonneg:
  assumes "0 \<le> x"
  shows "0 \<le> round64 x"
proof (cases "x = 0")
  case True
  then show ?thesis by (simp add: round64_def)
next
  case False
  have "0 \<le> x / ulp64 x"
    using assms ulp64_pos [of x] by simp
  then have "0 \<le> \<lfloor>x / ulp64 x\<rfloor>"
    by simp
  then have "0 \<le> round_half_even (x / ulp64 x)"
    using round_half_even_ge_floor [of "x / ulp64 x"] by linarith
  then show ?thesis
    using False ulp64_pos [of x] by (simp add: round64_def)
qed

lemma round64_le_int:
  assumes "0 \<le> x" and "x \<le> real_of_int N" and "N < 2 ^ 53"
  shows "round64 x \<le> real_of_int N"
proof (cases "x = 0")
  case True
  with assms show ?thesis by (simp add: round64_def)
next
  case False
  with assms(1) have pos: "0 < x" by simp
  have "real_of_int N < real_of_int (2 ^ 53)"
    using assms(3) by (simp only: of_int_less_iff)
  with assms(2) have "x < 2 ^ 53"
    by simp
  with pos obtain k :: nat where inv: "1 / ulp64 x = 2 ^ k"
    using inverse_ulp64 by blast
  have "x / ulp64 x \<le> real_of_int N / ulp64 x"
    using assms(2) ulp64_pos [of x] by (simp add: divide_right_mono)
  also have "real_of_int N / ulp64 x = real_of_int N * (1 / ulp64 x)"
    by simp
  also have "\<dots> = real_of_int (N * 2 ^ k)"
    unfolding inv by simp
  finally have "\<lceil>x / ulp64 x\<rceil> \<le> N * 2 ^ k"
    by (simp only: ceiling_le_iff)
  then have "round_half_even (x / ulp64 x) \<le> N * 2 ^ k"
    using round_half_even_le_ceiling [of "x / ulp64 x"] by linarith
  then have "real_of_int (round_half_even (x / ulp64 x)) \<le> real_of_int (N * 2 ^ k)"
    by (simp only: of_int_le_iff)
  also have "real_of_int (N * 2 ^ k) = real_of_int N * (1 / ulp64 x)"
    unfolding inv by simp
  finally have "real_of_int (round_half_even (x / ulp64 x)) \<le> real_of_int N / ulp64 x"
    by simp
  then have "ulp64 x * real_of_int (round_half_even (x / ulp64 x)) \<le> real_of_int N"
    using ulp64_pos [of x] by (simp add: pos_le_divide_eq mult.commute)
  then show ?thesis
    using False by (simp add: round64_def)
qed

lemma round64_ge_int:
  assumes "0 \<le> K" and "real_of_int K \<le> x" and "x < 2 ^ 53"
  shows "real_of_int K \<le> round64 x"
proof (cases "x = 0")
  case True
  with assms show ?thesis by (simp add: round64_def)
next
  case False
  with assms(1,2) have pos: "0 < x" by simp
  with assms(3) obtain k :: nat where inv: "1 / ulp64 x = 2 ^ k"
    using inverse_ulp64 by blast
  have "real_of_int (K * 2 ^ k) = real_of_int K * (1 / ulp64 x)"
    unfolding inv by simp
  also have "\<dots> = real_of_int K / ulp64 x"
    by simp
  also have "\<dots> \<le> x / ulp64 x"
    using assms(2) ulp64_pos [of x] by (simp add: divide_right_mono)
  finally have "K * 2 ^ k \<le> \<lfloor>x / ulp64 x\<rfloor>"
    by (simp only: le_floor_iff)
  then have "K * 2 ^ k \<le> round_half_even (x / ulp64 x)"
    using round_half_even_ge_floor [of "x / ulp64 x"] by linarith
  then have "real_of_int (K * 2 ^ k) \<le> real_of_int (round_half_even (x / ulp64 x))"
    by (simp only: of_int_le_iff)
  moreover have "real_of_int (K * 2 ^ k) = real_of_int K * (1 / ulp64 x)"
    unfolding inv by simp
  ultimately have "real_of_int K / ulp64 x \<le> real_of_int (round_half_even (x / ulp64 x))"
    by simp
  then have "real_of_int K \<le> ulp64 x * real_of_int (round_half_even (x / ulp64 x))"
    using ulp64_pos [of x] by (simp add: pos_divide_le_eq mult.commute)
  then show ?thesis
    using False by (simp add: round64_def)
qed

text \<open>
  The product \<open>0.7 * 10\<close> as the machine computes it: the \<^verbatim>\<open>float64\<close> nearest to \<open>0.7\<close>
  is \<open>3152519739159347 / 2^52\<close>, just below \<open>0.7\<close>; ten times it lies half way between
  two \<^verbatim>\<open>float64\<close> values and is rounded to the even one, which is 7.
\<close>

lemma round64_seven_tenths: "round64 (3152519739159347 / 2 ^ 52 * 10) = 7"
proof -
  define x :: real where "x = 3152519739159347 / 2 ^ 52 * 10"
  have "2 powr real_of_int 2 \<le> \<bar>x\<bar>" "\<bar>x\<bar> < 2 powr (real_of_int 2 + 1)"
    by (simp_all add: x_def)
  then have "ulp64 x = 2 powr (real_of_int 2 - 52)"
    by (rule ulp64_binade) simp
  then have u: "ulp64 x = 1 / 2 ^ 50"
    by (simp add: powr_minus_divide)
  have x0: "x \<noteq> 0"
    by (simp add: x_def)
  have "round_half_even (x / (1 / 2 ^ 50)) = 7881299347898368"
    by (simp add: x_def round_half_even_def Let_def)
  then have "round64 x = 7"
    using x0 by (simp add: round64_def u)
  then show ?thesis
    by (simp only: x_def)
qed

section \<open>The accuracy of the mapping\<close>

lemma gamma_gt_one:
  fixes a :: real
  assumes "0 < a" "a < 1"
  shows "1 < (1 + a) / (1 - a)"
  using assms by (simp add: field_simps)

lemma log1p_form:
  fixes a :: real
  assumes "a < 1"
  shows "1 + 2 * a / (1 - a) = (1 + a) / (1 - a)"
  using assms by (simp add: field_simps)

lemma reconstruction_bound:
  fixes a v :: real
  assumes a: "0 < a" "a < 1" and v: "0 < v"
    and mult: "multiplier m = 1 / ln ((1 + a) / (1 - a))"
    and acc: "relativeAccuracy m = a"
  shows "\<bar>Value m (Index m v) / v - 1\<bar> \<le> a"
proof -
  define g where "g = (1 + a) / (1 - a)"
  define off where "off = normalizedIndexOffset m"
  define x where "x = ln v * multiplier m + off"
  define k where "k = real_of_int (Index m v)"
  have g1: "1 < g"
    unfolding g_def using a by (rule gamma_gt_one)
  then have lng: "0 < ln g"
    by simp
  have kx: "x - 1 \<le> k" "k \<le> x"
    unfolding x_def k_def off_def using Index_lower [of v m] Index_upper [of m v] by simp_all
  have mult': "multiplier m = 1 / ln g"
    using mult by (simp add: g_def)
  have lnv: "ln v = (x - off) * ln g"
    unfolding x_def mult' using lng by simp
  have val: "Value m (Index m v) = exp ((k - off) * ln g) * (1 + a)"
    by (simp add: Value_def k_def off_def mult' acc)
  have "Value m (Index m v) / v = exp ((k - off) * ln g) * (1 + a) / exp (ln v)"
    using v val by simp
  also have "\<dots> = exp ((k - off) * ln g - (x - off) * ln g) * (1 + a)"
    by (simp add: lnv exp_diff)
  also have "(k - off) * ln g - (x - off) * ln g = (k - x) * ln g"
    by (simp add: algebra_simps)
  finally have ratio: "Value m (Index m v) / v = exp ((k - x) * ln g) * (1 + a)" .
  define e where "e = exp ((k - x) * ln g)"
  have "(k - x) * ln g \<le> 0"
    using kx lng by (simp add: mult_le_0_iff)
  then have e_le: "e \<le> 1"
    by (simp add: e_def)
  have "- ln g \<le> (k - x) * ln g"
  proof -
    have "(- 1) * ln g \<le> (k - x) * ln g"
      using kx lng by (intro mult_right_mono) simp_all
    then show ?thesis by simp
  qed
  then have "exp (- ln g) \<le> e"
    by (simp add: e_def)
  then have e_ge: "1 / g \<le> e"
    using g1 by (simp add: exp_minus inverse_eq_divide)
  have "1 / g * (1 + a) = 1 - a"
    using a by (simp add: g_def)
  moreover have "1 / g * (1 + a) \<le> e * (1 + a)"
    using e_ge a by (intro mult_right_mono) simp_all
  ultimately have lo: "1 - a \<le> e * (1 + a)"
    by simp
  have hi: "e * (1 + a) \<le> 1 + a"
    using e_le a by (simp add: mult_le_cancel_right1)
  show ?thesis
    unfolding ratio e_def [symmetric] using lo hi by (simp add: abs_le_iff)
qed


lemma computeMin_fields:
  "computeMinIndexableValue mn (m \<lparr> minIndexableValue := a, maxIndexableValue := b \<rparr>)
     = computeMinIndexableValue mn m"
  by (simp add: computeMinIndexableValue_def)

lemma computeMax_fields:
  "computeMaxIndexableValue eo (m \<lparr> minIndexableValue := a, maxIndexableValue := b \<rparr>)
     = computeMaxIndexableValue eo m"
  by (simp add: computeMaxIndexableValue_def)

lemma NewLogarithmicMapping_Inr:
  assumes "NewLogarithmicMapping mn eo a = Inr m"
  shows "0 < a" "a < 1"
    and "relativeAccuracy m = a"
    and "multiplier m = 1 / ln ((1 + a) / (1 - a))"
    and "normalizedIndexOffset m = 0"
    and "minIndexableValue m = computeMinIndexableValue mn m"
    and "maxIndexableValue m = computeMaxIndexableValue eo m"
proof -
  from assms have a: "0 < a" "a < 1"
    by (simp_all add: NewLogarithmicMapping_def split: if_splits)
  then show "0 < a" "a < 1" .
  from assms a have m: "m = \<lparr> relativeAccuracy = a,
      multiplier = 1 / ln (1 + 2 * a / (1 - a)),
      normalizedIndexOffset = 0,
      minIndexableValue = computeMinIndexableValue mn \<lparr> relativeAccuracy = a,
        multiplier = 1 / ln (1 + 2 * a / (1 - a)), normalizedIndexOffset = 0,
        minIndexableValue = 0, maxIndexableValue = 0 \<rparr>,
      maxIndexableValue = computeMaxIndexableValue eo \<lparr> relativeAccuracy = a,
        multiplier = 1 / ln (1 + 2 * a / (1 - a)), normalizedIndexOffset = 0,
        minIndexableValue = computeMinIndexableValue mn \<lparr> relativeAccuracy = a,
          multiplier = 1 / ln (1 + 2 * a / (1 - a)), normalizedIndexOffset = 0,
          minIndexableValue = 0, maxIndexableValue = 0 \<rparr>, maxIndexableValue = 0 \<rparr> \<rparr>"
    by (simp add: NewLogarithmicMapping_def Let_def)
  show "relativeAccuracy m = a" "normalizedIndexOffset m = 0"
    by (simp_all add: m)
  show "multiplier m = 1 / ln ((1 + a) / (1 - a))"
    using a by (simp add: m log1p_form)
  show "minIndexableValue m = computeMinIndexableValue mn m"
    by (simp add: m computeMinIndexableValue_def)
  show "maxIndexableValue m = computeMaxIndexableValue eo m"
    by (simp add: m computeMaxIndexableValue_def)
qed

lemma computeMin_pos: "0 < computeMinIndexableValue mn m"
  by (simp add: computeMinIndexableValue_def less_max_iff_disj)

lemma multiplier_pos:
  fixes a :: real
  assumes "0 < a" "a < 1"
  shows "0 < 1 / ln ((1 + a) / (1 - a))"
  using gamma_gt_one [OF assms] by simp

lemma Index_in_int16:
  assumes mult: "0 < multiplier m"
    and lo: "computeMinIndexableValue mn m \<le> v"
    and hi: "v \<le> computeMaxIndexableValue eo m"
  shows "MinInt16 \<le> Index m v" and "Index m v \<le> MaxInt16"
proof -
  define off where "off = normalizedIndexOffset m"
  define x where "x = ln v * multiplier m + off"
  have v: "0 < v"
    using computeMin_pos [of mn m] lo by linarith
  have "exp ((real_of_int MinInt16 - off) / multiplier m + 1) \<le> v"
    using lo by (simp add: computeMinIndexableValue_def off_def)
  then have "(real_of_int MinInt16 - off) / multiplier m + 1 \<le> ln v"
    using v by (simp add: ln_ge_iff)
  then have "(real_of_int MinInt16 - off) / multiplier m \<le> ln v - 1"
    by simp
  then have "real_of_int MinInt16 - off \<le> (ln v - 1) * multiplier m"
    using mult by (simp add: pos_divide_le_eq)
  then have "real_of_int MinInt16 - off + multiplier m \<le> ln v * multiplier m"
    by (simp add: algebra_simps)
  then have xlo: "real_of_int MinInt16 < x"
    using mult by (simp add: x_def)
  have "v \<le> exp ((real_of_int MaxInt16 - off) / multiplier m - 1)"
    using hi by (simp add: computeMaxIndexableValue_def off_def)
  then have "ln v \<le> ln (exp ((real_of_int MaxInt16 - off) / multiplier m - 1))"
    using v by (intro ln_mono) simp_all
  then have "ln v \<le> (real_of_int MaxInt16 - off) / multiplier m - 1"
    by simp
  then have "ln v + 1 \<le> (real_of_int MaxInt16 - off) / multiplier m"
    by simp
  then have "(ln v + 1) * multiplier m \<le> real_of_int MaxInt16 - off"
    using mult by (simp add: pos_le_divide_eq)
  then have "ln v * multiplier m \<le> real_of_int MaxInt16 - off - multiplier m"
    by (simp add: algebra_simps)
  then have xhi: "x < real_of_int MaxInt16"
    using mult by (simp add: x_def)
  have idx: "Index m v = (if 0 \<le> x then \<lfloor>x\<rfloor> else \<lceil>x\<rceil> - 1)"
    by (simp add: Index_eq x_def off_def Let_def)
  show "MinInt16 \<le> Index m v"
  proof (cases "0 \<le> x")
    case True
    then have "0 \<le> \<lfloor>x\<rfloor>" by simp
    with True show ?thesis by (simp add: idx MinInt16_def)
  next
    case False
    from xlo have "MinInt16 < \<lceil>x\<rceil>" by (simp add: less_ceiling_iff)
    with False show ?thesis by (simp add: idx)
  qed
  have "real_of_int (Index m v) \<le> x"
    using Index_upper [of m v] by (simp add: x_def off_def)
  with xhi have "real_of_int (Index m v) < real_of_int MaxInt16" by linarith
  then show "Index m v \<le> MaxInt16" by simp
qed

text \<open>
  Claim C1. For a mapping built by \<^verbatim>\<open>NewLogarithmicMapping\<close> with relative accuracy \<open>a\<close>
  (so \<open>0 < a < 1\<close>) and every value \<open>v\<close> between \<^verbatim>\<open>MinIndexableValue()\<close> and
  \<^verbatim>\<open>MaxIndexableValue()\<close>, the value rebuilt from the index of \<open>v\<close> is within the
  relative accuracy of \<open>v\<close>: \<open>|Value(Index(v)) / v - 1| \<le> a\<close>.
\<close>

theorem C1_reconstruction_bound:
  assumes "NewLogarithmicMapping mn eo a = Inr m"
    and "MinIndexableValue m \<le> v" and "v \<le> MaxIndexableValue m"
  shows "\<bar>Value m (Index m v) / v - 1\<bar> \<le> a"
proof -
  note m = NewLogarithmicMapping_Inr [OF assms(1)]
  have "0 < MinIndexableValue m"
    by (simp add: MinIndexableValue_def m(6) computeMin_pos)
  with assms(2) have "0 < v" by linarith
  with m show ?thesis
    by (intro reconstruction_bound) simp_all
qed

text \<open>
  Claim C4. For a mapping built by \<^verbatim>\<open>NewLogarithmicMapping\<close> and every value \<open>v\<close> between
  \<^verbatim>\<open>MinIndexableValue()\<close> and \<^verbatim>\<open>MaxIndexableValue()\<close>, the index of \<open>v\<close> is in the
  range of a signed 16-bit integer.
\<close>

theorem C4_Index_in_int16:
  assumes "NewLogarithmicMapping mn eo a = Inr m"
    and "MinIndexableValue m \<le> v" and "v \<le> MaxIndexableValue m"
  shows "MinInt16 \<le> Index m v \<and> Index m v \<le> MaxInt16"
proof -
  note m = NewLogarithmicMapping_Inr [OF assms(1)]
  have mult: "0 < multiplier m"
    using m(1,2) by (simp add: m(4) multiplier_pos)
  have lo: "computeMinIndexableValue mn m \<le> v"
    using assms(2) by (simp add: MinIndexableValue_def m(6))
  have hi: "v \<le> computeMaxIndexableValue eo m"
    using assms(3) by (simp add: MaxIndexableValue_def m(7))
  from Index_in_int16 [OF mult lo hi] show ?thesis by simp
qed


lemma half_mapping_exists:
  "\<exists>m. NewLogarithmicMapping (1 / 2 ^ 1022) 709 (1 / 2) = Inr m"
  by (simp add: NewLogarithmicMapping_def Let_def)

lemma half_mapping_facts:
  assumes "NewLogarithmicMapping (1 / 2 ^ 1022) 709 (1 / 2) = Inr m"
  shows "MinIndexableValue m \<le> 1" and "1 \<le> MaxIndexableValue m" and "Index m 1 = 0"
    and "Value m 0 = 3 / 2"
proof -
  note m = NewLogarithmicMapping_Inr [OF assms]
  have "(1 + 1 / 2) / (1 - 1 / 2) = (3::real)" by simp
  then have mult: "multiplier m = 1 / ln 3"
    using m(4) by simp
  have ln3: "1 \<le> ln (3::real)"
    using exp_le by (simp add: ln_ge_iff)
  have "exp ((real_of_int MinInt16 - 0) / (1 / ln 3) + 1) \<le> (1::real)"
    using ln3 by (simp add: MinInt16_def)
  moreover have "(1 / 2 ^ 1022) * (1 + 1 / 2) / (1 - 1 / 2) \<le> (1::real)"
    by simp
  ultimately show "MinIndexableValue m \<le> 1"
    by (simp add: MinIndexableValue_def m(6) computeMinIndexableValue_def m(3) m(5) mult)
  have "(1::real) \<le> exp ((real_of_int MaxInt16 - 0) / (1 / ln 3) - 1)"
    using ln3 by (simp add: MaxInt16_def)
  moreover have "(1::real) \<le> exp 709 / (1 + 1 / 2)"
  proof -
    have "(1::real) + 709 \<le> exp 709" by (rule exp_ge_add_one_self)
    then show ?thesis by simp
  qed
  ultimately show "1 \<le> MaxIndexableValue m"
    by (simp add: MaxIndexableValue_def m(7) computeMaxIndexableValue_def m(3) m(5) mult)
  show "Index m 1 = 0"
    by (simp add: Index_def go_int_def m(5))
  show "Value m 0 = 3 / 2"
    by (simp add: Value_def m(3) m(5))
qed

theorem C1_reconstruction_bound_witness:
  "\<exists>m. NewLogarithmicMapping (1 / 2 ^ 1022) 709 (1 / 2) = Inr m
       \<and> MinIndexableValue m \<le> 1 \<and> 1 \<le> MaxIndexableValue m
       \<and> \<bar>Value m (Index m 1) / 1 - 1\<bar> \<le> 1 / 2"
proof -
  obtain m where m: "NewLogarithmicMapping (1 / 2 ^ 1022) 709 (1 / 2) = Inr m"
    using half_mapping_exists by blast
  note f = half_mapping_facts [OF m]
  from C1_reconstruction_bound [OF m f(1) f(2)] m f show ?thesis
    by blast
qed

theorem C4_Index_in_int16_witness:
  "\<exists>m. NewLogarithmicMapping (1 / 2 ^ 1022) 709 (1 / 2) = Inr m
       \<and> MinIndexableValue m \<le> 1 \<and> 1 \<le> MaxIndexableValue m
       \<and> MinInt16 \<le> Index m 1 \<and> Index m 1 \<le> MaxInt16"
proof -
  obtain m where m: "NewLogarithmicMapping (1 / 2 ^ 1022) 709 (1 / 2) = Inr m"
    using half_mapping_exists by blast
  note f = half_mapping_facts [OF m]
  from C4_Index_in_int16 [OF m f(1) f(2)] m f show ?thesis
    by blast
qed

section \<open>The index at an integer\<close>

lemma Index_floor:
  "Index m v =
     (let x = ln v * multiplier m + normalizedIndexOffset m
      in if 0 \<le> x \<or> x \<notin> \<int> then \<lfloor>x\<rfloor> else \<lfloor>x\<rfloor> - 1)"
proof -
  define x where "x = ln v * multiplier m + normalizedIndexOffset m"
  have "\<lceil>x\<rceil> = \<lfloor>x\<rfloor>" if "x \<in> \<int>"
    using that by (auto elim: Ints_cases)
  moreover have "\<lceil>x\<rceil> = \<lfloor>x\<rfloor> + 1" if "x \<notin> \<int>"
  proof -
    from that have "real_of_int \<lfloor>x\<rfloor> \<noteq> x"
      by (metis Ints_of_int)
    then show ?thesis
      by (simp add: ceiling_altdef)
  qed
  ultimately show ?thesis
    unfolding Index_eq Let_def x_def [symmetric] by auto
qed

lemma NewLogarithmicMappingWithGamma_Inr:
  assumes "NewLogarithmicMappingWithGamma mn eo g off = Inr m"
  shows "1 < g"
    and "relativeAccuracy m = 1 - 2 / (1 + g)"
    and "multiplier m = 1 / ln g"
    and "normalizedIndexOffset m = off"
    and "minIndexableValue m = computeMinIndexableValue mn m"
    and "maxIndexableValue m = computeMaxIndexableValue eo m"
proof -
  from assms show g: "1 < g"
    by (simp add: NewLogarithmicMappingWithGamma_def split: if_splits)
  from assms g have m: "m = \<lparr> relativeAccuracy = 1 - 2 / (1 + g),
      multiplier = 1 / ln g,
      normalizedIndexOffset = off,
      minIndexableValue = computeMinIndexableValue mn \<lparr> relativeAccuracy = 1 - 2 / (1 + g),
        multiplier = 1 / ln g, normalizedIndexOffset = off,
        minIndexableValue = 0, maxIndexableValue = 0 \<rparr>,
      maxIndexableValue = computeMaxIndexableValue eo \<lparr> relativeAccuracy = 1 - 2 / (1 + g),
        multiplier = 1 / ln g, normalizedIndexOffset = off,
        minIndexableValue = computeMinIndexableValue mn \<lparr> relativeAccuracy = 1 - 2 / (1 + g),
          multiplier = 1 / ln g, normalizedIndexOffset = off,
          minIndexableValue = 0, maxIndexableValue = 0 \<rparr>, maxIndexableValue = 0 \<rparr> \<rparr>"
    by (simp add: NewLogarithmicMappingWithGamma_def Let_def)
  show "relativeAccuracy m = 1 - 2 / (1 + g)" "normalizedIndexOffset m = off"
    "multiplier m = 1 / ln g"
    by (simp_all add: m)
  show "minIndexableValue m = computeMinIndexableValue mn m"
    by (simp add: m computeMinIndexableValue_def)
  show "maxIndexableValue m = computeMaxIndexableValue eo m"
    by (simp add: m computeMaxIndexableValue_def)
qed

lemma NewLogarithmicMappingWithGamma_exists:
  "1 < g \<Longrightarrow> \<exists>m. NewLogarithmicMappingWithGamma mn eo g off = Inr m"
  by (simp add: NewLogarithmicMappingWithGamma_def Let_def)

lemma NewLogarithmicMapping_exists:
  "0 < a \<Longrightarrow> a < 1 \<Longrightarrow> \<exists>m. NewLogarithmicMapping mn eo a = Inr m"
  by (simp add: NewLogarithmicMapping_def Let_def)

text \<open>
  Claim C2 says that \<^verbatim>\<open>Index\<close> is the floor of \<open>ln(v) * multiplier + normalizedIndexOffset\<close>
  for every positive \<open>v\<close>, also where that number is an integer. By \<open>Index_floor\<close> it is
  the floor exactly when the number is non-negative or not an integer. This theorem is the
  code at a negative integer: with \<open>gamma = 2\<close> and \<open>indexOffset = -3\<close> the number computed
  for \<open>v = 1\<close> is \<open>-3\<close>, its floor is \<open>-3\<close>, and \<^verbatim>\<open>Index\<close> returns \<open>-4\<close>.
\<close>

theorem C2_Index_at_negative_integer:
  "\<exists>m. NewLogarithmicMappingWithGamma mn eo 2 (- 3) = Inr m
       \<and> ln 1 * multiplier m + normalizedIndexOffset m = - 3
       \<and> \<lfloor>ln 1 * multiplier m + normalizedIndexOffset m\<rfloor> = - 3
       \<and> Index m 1 = - 4"
proof -
  obtain m where m: "NewLogarithmicMappingWithGamma mn eo 2 (- 3) = Inr m"
    using NewLogarithmicMappingWithGamma_exists [of 2 mn eo "- 3"] by auto
  note f = NewLogarithmicMappingWithGamma_Inr [OF m]
  have "Index m 1 = - 4"
    by (simp add: Index_def go_int_def f(4))
  with m f(4) show ?thesis by simp
qed


section \<open>The mapping built from gamma, and monotonicity\<close>

lemma gamma_of_alpha:
  fixes g :: real
  assumes "1 < g"
  shows "0 < 1 - 2 / (1 + g)" and "1 - 2 / (1 + g) < 1"
    and "(1 + (1 - 2 / (1 + g))) / (1 - (1 - 2 / (1 + g))) = g"
  using assms by (simp_all add: field_simps)

lemma reconstruction_bound_gamma:
  assumes "NewLogarithmicMappingWithGamma mn eo g off = Inr m" and "0 < v"
  shows "\<bar>Value m (Index m v) / v - 1\<bar> \<le> RelativeAccuracy m"
proof -
  note f = NewLogarithmicMappingWithGamma_Inr [OF assms(1)]
  note g = gamma_of_alpha [OF f(1)]
  have "multiplier m = 1 / ln ((1 + (1 - 2 / (1 + g))) / (1 - (1 - 2 / (1 + g))))"
    by (simp only: g(3) f(3))
  from reconstruction_bound [OF g(1) g(2) assms(2) this f(2)]
  show ?thesis
    by (simp add: RelativeAccuracy_def f(2))
qed

lemma Index_in_int16_gamma:
  assumes "NewLogarithmicMappingWithGamma mn eo g off = Inr m"
    and "MinIndexableValue m \<le> v" and "v \<le> MaxIndexableValue m"
  shows "MinInt16 \<le> Index m v" and "Index m v \<le> MaxInt16"
proof -
  note f = NewLogarithmicMappingWithGamma_Inr [OF assms(1)]
  have mult: "0 < multiplier m"
    using f(1) by (simp add: f(3))
  have lo: "computeMinIndexableValue mn m \<le> v"
    using assms(2) by (simp add: MinIndexableValue_def f(5))
  have hi: "v \<le> computeMaxIndexableValue eo m"
    using assms(3) by (simp add: MaxIndexableValue_def f(6))
  from Index_in_int16 [OF mult lo hi]
  show "MinInt16 \<le> Index m v" and "Index m v \<le> MaxInt16" .
qed

lemma Index_mono:
  assumes "0 < multiplier m" and "0 < v" and "v \<le> w"
  shows "Index m v \<le> Index m w"
proof -
  define x where "x = ln v * multiplier m + normalizedIndexOffset m"
  define y where "y = ln w * multiplier m + normalizedIndexOffset m"
  have "ln v \<le> ln w"
    using assms(2,3) by simp
  then have xy: "x \<le> y"
    using assms(1) by (simp add: x_def y_def)
  have ix: "Index m v = (if 0 \<le> x then \<lfloor>x\<rfloor> else \<lceil>x\<rceil> - 1)"
    and iy: "Index m w = (if 0 \<le> y then \<lfloor>y\<rfloor> else \<lceil>y\<rceil> - 1)"
    by (simp_all add: Index_eq x_def y_def Let_def)
  show ?thesis
  proof (cases "0 \<le> x")
    case True
    with xy have "0 \<le> y" by simp
    with True xy show ?thesis by (simp add: ix iy floor_mono)
  next
    case False
    show ?thesis
    proof (cases "0 \<le> y")
      case True
      from False have "\<lceil>x\<rceil> \<le> 0" by (simp add: ceiling_le_iff)
      moreover from True have "0 \<le> \<lfloor>y\<rfloor>" by simp
      ultimately have "\<lceil>x\<rceil> - 1 \<le> \<lfloor>y\<rfloor>" by linarith
      with False True show ?thesis by (simp add: ix iy)
    next
      case ny: False
      from xy have "\<lceil>x\<rceil> \<le> \<lceil>y\<rceil>" by (rule ceiling_mono)
      with False ny show ?thesis by (simp add: ix iy)
    qed
  qed
qed

section \<open>The operations of the sketch\<close>

lemma sint_pred:
  fixes c :: int32
  assumes "0 <s c"
  shows "sint (c - 1) = sint c - 1"
proof -
  have "sint c < 2 ^ 31"
    using sint_lt [of c] by simp
  moreover have "0 < sint c"
    using assms by (simp add: word_sless_alt)
  ultimately show ?thesis
    by (simp add: sint_word_ariths signed_take_bit_int_eq_self)
qed

text \<open>
  Claim C3. \<^verbatim>\<open>AddWithCount(value, count)\<close> returns an error if and only if the value is
  below \<^verbatim>\<open>MinIndexableValue()\<close>, above \<^verbatim>\<open>MaxIndexableValue()\<close>, or the count is
  negative. When it returns an error the sketch (its store, and so \<^verbatim>\<open>GetCount()\<close>) is
  unchanged; otherwise the store is the result of \<^verbatim>\<open>store.AddWithCount\<close> at the index of
  the value with the count.
\<close>

theorem C3_AddWithCount:
  "(fst (AddWithCount S s v count) \<noteq> None)
     = (v < MinIndexableValue (IndexMapping s) \<or> v > MaxIndexableValue (IndexMapping s)
        \<or> count <s 0)
   \<and> snd (AddWithCount S s v count)
     = (if fst (AddWithCount S s v count) \<noteq> None then s
        else s \<lparr> store := store_AddWithCount S (Index (IndexMapping s) v) count (store s) \<rparr>)
   \<and> GetCount S (snd (AddWithCount S s v count))
     = (if fst (AddWithCount S s v count) \<noteq> None then GetCount S s
        else store_TotalCount S
               (store_AddWithCount S (Index (IndexMapping s) v) count (store s)))"
  by (simp add: AddWithCount_def GetCount_def)


text \<open>
  Claim C6. \<^verbatim>\<open>MergeWith(other)\<close> fails if and only if the mappings of the two sketches are
  not \<^verbatim>\<open>Equals\<close>. On a failure both sketches are unchanged; on success the stores are
  the ones that \<^verbatim>\<open>store.MergeWith(other.store)\<close> leaves.
\<close>

theorem C6_MergeWith:
  "(fst (MergeWith S s other) \<noteq> None)
     = (\<not> Equals (IndexMapping s) (Logarithmic (IndexMapping other)))
   \<and> snd (MergeWith S s other)
     = (if fst (MergeWith S s other) \<noteq> None then (s, other)
        else (s \<lparr> store := fst (store_MergeWith S (store s) (store other)) \<rparr>,
              other \<lparr> store := snd (store_MergeWith S (store s) (store other)) \<rparr>))"
  by (simp add: MergeWith_def Let_def split: prod.splits)

lemma Equals_Logarithmic:
  "Equals m (Logarithmic oth) =
     (\<bar>multiplier m - multiplier oth\<bar> \<le> 1 / 10 ^ 12
      \<and> \<bar>normalizedIndexOffset m - normalizedIndexOffset oth\<bar> \<le> 1 / 10 ^ 12)"
  by (simp add: Equals_def withinTolerance_def Let_def)

text \<open>
  The two constructors give the same multiplier where \<open>gamma\<close> is the real number
  \<open>(1 + a) / (1 - a)\<close>. A \<^verbatim>\<open>float64\<close> quotient is in general another number.
\<close>

lemma Equals_exact_gamma:
  assumes "NewLogarithmicMapping mn eo a = Inr m1"
    and "NewLogarithmicMappingWithGamma mn eo ((1 + a) / (1 - a)) 0 = Inr m2"
  shows "Equals m1 (Logarithmic m2)"
proof -
  note f1 = NewLogarithmicMapping_Inr [OF assms(1)]
  note f2 = NewLogarithmicMappingWithGamma_Inr [OF assms(2)]
  have "multiplier m1 = multiplier m2" "normalizedIndexOffset m1 = normalizedIndexOffset m2"
    by (simp_all only: f1(4) f2(3) f1(5) f2(4))
  then show ?thesis
    by (simp add: Equals_Logarithmic)
qed

text \<open>
  Claim C7, amended. For two logarithmic mappings \<^verbatim>\<open>Equals\<close> is true if and only if the
  multipliers and the index offsets each differ by at most \<open>1e-12\<close>. The mapping of
  \<^verbatim>\<open>NewLogarithmicMapping(a)\<close> and the mapping of
  \<^verbatim>\<open>NewLogarithmicMappingWithGamma(gamma, 0)\<close> both have the offset 0, so they are equal
  exactly when their multipliers differ by at most \<open>1e-12\<close>.
\<close>

theorem C7_Equals_tolerance:
  "Equals m (Logarithmic oth) =
     (\<bar>multiplier m - multiplier oth\<bar> \<le> 1 / 10 ^ 12
      \<and> \<bar>normalizedIndexOffset m - normalizedIndexOffset oth\<bar> \<le> 1 / 10 ^ 12)
   \<and> (NewLogarithmicMapping mn eo a = Inr m1
        \<and> NewLogarithmicMappingWithGamma mn eo g 0 = Inr m2 \<longrightarrow>
          Equals m1 (Logarithmic m2) = (\<bar>multiplier m1 - multiplier m2\<bar> \<le> 1 / 10 ^ 12))"
proof (intro conjI impI)
  show "Equals m (Logarithmic oth) =
     (\<bar>multiplier m - multiplier oth\<bar> \<le> 1 / 10 ^ 12
      \<and> \<bar>normalizedIndexOffset m - normalizedIndexOffset oth\<bar> \<le> 1 / 10 ^ 12)"
    by (rule Equals_Logarithmic)
next
  assume h: "NewLogarithmicMapping mn eo a = Inr m1
        \<and> NewLogarithmicMappingWithGamma mn eo g 0 = Inr m2"
  then have "normalizedIndexOffset m1 = 0" "normalizedIndexOffset m2 = 0"
    using NewLogarithmicMapping_Inr(5) [of mn eo a m1]
      NewLogarithmicMappingWithGamma_Inr(4) [of mn eo g 0 m2] by simp_all
  then show "Equals m1 (Logarithmic m2) = (\<bar>multiplier m1 - multiplier m2\<bar> \<le> 1 / 10 ^ 12)"
    by (simp add: Equals_Logarithmic)
qed

theorem C7_Equals_tolerance_witness:
  "\<exists>m1 m2. NewLogarithmicMapping (1 / 2 ^ 1022) 709 (1 / 2) = Inr m1
       \<and> NewLogarithmicMappingWithGamma (1 / 2 ^ 1022) 709 3 0 = Inr m2
       \<and> \<bar>multiplier m1 - multiplier m2\<bar> \<le> 1 / 10 ^ 12
       \<and> Equals m1 (Logarithmic m2)"
proof -
  obtain m1 where m1: "NewLogarithmicMapping (1 / 2 ^ 1022) 709 (1 / 2) = Inr m1"
    using half_mapping_exists by blast
  obtain m2 where m2: "NewLogarithmicMappingWithGamma (1 / 2 ^ 1022) 709 3 0 = Inr m2"
    using NewLogarithmicMappingWithGamma_exists [of 3 "1 / 2 ^ 1022" 709 0] by auto
  have "(1 + 1 / 2) / (1 - 1 / 2) = (3::real)"
    by simp
  then have "multiplier m1 = 1 / ln 3"
    using NewLogarithmicMapping_Inr(4) [OF m1] by simp
  moreover have "multiplier m2 = 1 / ln 3"
    by (rule NewLogarithmicMappingWithGamma_Inr(3) [OF m2])
  ultimately have close: "\<bar>multiplier m1 - multiplier m2\<bar> \<le> 1 / 10 ^ 12"
    by simp
  with C7_Equals_tolerance [of _ _ "1 / 2 ^ 1022" 709 "1 / 2" m1 3 m2] m1 m2
  have "Equals m1 (Logarithmic m2)"
    by blast
  with m1 m2 close show ?thesis
    by blast
qed

lemma multiplier_gap:
  fixes g G :: real
  assumes "1 < g" and "g < G"
  shows "(1 - g / G) / ((g - 1) * (G - 1)) \<le> 1 / ln g - 1 / ln G"
    and "1 / ln g \<le> g / (g - 1)"
    and "1 / ln G < 1 / ln g"
    and "0 < 1 / ln G"
proof -
  have G: "1 < G" using assms by simp
  have lg: "0 < ln g" and lG: "0 < ln G"
    using assms(1) G by simp_all
  have ug: "ln g \<le> g - 1" and uG: "ln G \<le> G - 1"
    using assms(1) G by (simp_all add: ln_le_minus_one)
  have "ln (g / G) \<le> g / G - 1"
    using assms(1) G by (intro ln_le_minus_one) simp
  moreover have "ln (g / G) = ln g - ln G"
    using assms(1) G by (simp add: ln_div)
  ultimately have d: "1 - g / G \<le> ln G - ln g"
    by simp
  have dpos: "0 < 1 - g / G"
    using assms G by simp
  have den: "ln g * ln G \<le> (g - 1) * (G - 1)"
    using ug uG lg lG by (intro mult_mono) simp_all
  have denpos: "0 < ln g * ln G"
    using lg lG by simp
  have "(1 - g / G) / ((g - 1) * (G - 1)) \<le> (ln G - ln g) / (ln g * ln G)"
    using d dpos den denpos by (intro frac_le) simp_all
  also have "(ln G - ln g) / (ln g * ln G) = 1 / ln g - 1 / ln G"
    using lg lG by (simp add: field_simps)
  finally show "(1 - g / G) / ((g - 1) * (G - 1)) \<le> 1 / ln g - 1 / ln G" .
  have "ln (1 / g) \<le> 1 / g - 1"
    using assms(1) by (intro ln_le_minus_one) simp
  moreover have "ln (1 / g) = - ln g"
    using assms(1) by (simp add: ln_div)
  ultimately have low: "1 - 1 / g \<le> ln g"
    by simp
  have lowpos: "0 < 1 - 1 / g"
    using assms(1) by simp
  have "1 / ln g \<le> 1 / (1 - 1 / g)"
    using low lowpos by (intro divide_left_mono) simp_all
  also have "1 / (1 - 1 / g) = g / (g - 1)"
    using assms(1) by (simp add: field_simps)
  finally show "1 / ln g \<le> g / (g - 1)" .
  have "ln g < ln G"
    using assms by simp
  then show "1 / ln G < 1 / ln g"
    using lg by (simp add: divide_strict_left_mono)
  show "0 < 1 / ln G"
    using lG by simp
qed

lemma round64_on_grid:
  assumes "2 powr real_of_int e \<le> \<bar>x\<bar>" and "\<bar>x\<bar> < 2 powr (real_of_int e + 1)"
    and "- 1022 \<le> e" and "x / 2 powr (real_of_int e - 52) = real_of_int k"
  shows "round64 x = x"
proof -
  have u: "ulp64 x = 2 powr (real_of_int e - 52)"
    using assms(1,2,3) by (rule ulp64_binade)
  have "round_half_even (real_of_int k) = k"
    by (simp add: round_half_even_def)
  then have "round64 x = (if x = 0 then 0 else 2 powr (real_of_int e - 52) * (x / 2 powr (real_of_int e - 52)))"
    by (simp add: round64_def u assms(4))
  then show ?thesis
    by simp
qed

lemma float64_gamma:
  "round64 (1 + 3 / 2 ^ 20) = 1 + 3 / 2 ^ 20"
  "round64 (1 - 3 / 2 ^ 20) = 1 - 3 / 2 ^ 20"
  "round64 ((1 + 3 / 2 ^ 20) / (1 - 3 / 2 ^ 20)) = 549758959625 / 2 ^ 39"
proof -
  show "round64 (1 + 3 / 2 ^ 20) = 1 + 3 / 2 ^ 20"
    by (rule round64_on_grid [where e = 0 and k = "(2 ^ 20 + 3) * 2 ^ 32"])
      (simp_all add: powr_minus_divide)
  show "round64 (1 - 3 / 2 ^ 20) = 1 - 3 / 2 ^ 20"
    by (rule round64_on_grid [where e = "- 1" and k = "(2 ^ 20 - 3) * 2 ^ 33"])
      (simp_all add: powr_minus_divide)
  define x :: real where "x = (1 + 3 / 2 ^ 20) / (1 - 3 / 2 ^ 20)"
  have "2 powr real_of_int 0 \<le> \<bar>x\<bar>" "\<bar>x\<bar> < 2 powr (real_of_int 0 + 1)"
    by (simp_all add: x_def)
  then have "ulp64 x = 2 powr (real_of_int 0 - 52)"
    by (rule ulp64_binade) simp
  then have u: "ulp64 x = 1 / 2 ^ 52"
    by (simp add: powr_minus_divide)
  have x0: "x \<noteq> 0"
    by (simp add: x_def)
  have "round_half_even (x / (1 / 2 ^ 52)) = 549758959625 * 2 ^ 13"
    by (simp add: x_def round_half_even_def Let_def)
  then have "round64 x = 549758959625 / 2 ^ 39"
    using x0 by (simp add: round64_def u)
  then show "round64 ((1 + 3 / 2 ^ 20) / (1 - 3 / 2 ^ 20)) = 549758959625 / 2 ^ 39"
    by (simp only: x_def)
qed

text \<open>
  The claim C7 as first stated has the two mappings equal for every \<open>a\<close> when \<open>gamma\<close>
  is \<open>(1 + a) / (1 - a)\<close>. With \<open>a = 3 / 2^20\<close> the sum \<open>1 + a\<close> and the difference
  \<open>1 - a\<close> are values of \<^verbatim>\<open>float64\<close>, and their quotient as \<^verbatim>\<open>float64\<close> is
  \<open>549758959625 / 2^39\<close>, below the real quotient. The two multipliers then differ by more
  than \<open>1e-12\<close>, and by more than \<open>1e-12\<close> times the larger of them.
\<close>

theorem C7_float64_gamma_not_Equals:
  "round64 (round64 (1 + 3 / 2 ^ 20) / round64 (1 - 3 / 2 ^ 20)) = 549758959625 / 2 ^ 39
   \<and> \<not> isl (NewLogarithmicMapping (1 / 2 ^ 1022) 709 (3 / 2 ^ 20))
   \<and> \<not> isl (NewLogarithmicMappingWithGamma (1 / 2 ^ 1022) 709 (549758959625 / 2 ^ 39) 0)
   \<and> \<not> Equals (projr (NewLogarithmicMapping (1 / 2 ^ 1022) 709 (3 / 2 ^ 20)))
         (Logarithmic
            (projr (NewLogarithmicMappingWithGamma (1 / 2 ^ 1022) 709 (549758959625 / 2 ^ 39) 0)))
   \<and> 1 / 10 ^ 12
       * max (multiplier (projr (NewLogarithmicMapping (1 / 2 ^ 1022) 709 (3 / 2 ^ 20))))
           (multiplier
              (projr (NewLogarithmicMappingWithGamma (1 / 2 ^ 1022) 709 (549758959625 / 2 ^ 39) 0)))
     < \<bar>multiplier (projr (NewLogarithmicMapping (1 / 2 ^ 1022) 709 (3 / 2 ^ 20)))
        - multiplier
            (projr (NewLogarithmicMappingWithGamma (1 / 2 ^ 1022) 709 (549758959625 / 2 ^ 39) 0))\<bar>"
proof -
  define g :: real where "g = 549758959625 / 2 ^ 39"
  define G :: real where "G = (1 + 3 / 2 ^ 20) / (1 - 3 / 2 ^ 20)"
  define lb where "lb = (1 - g / G) / ((g - 1) * (G - 1))"
  obtain m1 where m1: "NewLogarithmicMapping (1 / 2 ^ 1022) 709 (3 / 2 ^ 20) = Inr m1"
    using NewLogarithmicMapping_exists [of "3 / 2 ^ 20" "1 / 2 ^ 1022" 709] by auto
  have g1: "1 < g" and gG: "g < G"
    by (simp_all add: g_def G_def)
  obtain m2 where m2: "NewLogarithmicMappingWithGamma (1 / 2 ^ 1022) 709 g 0 = Inr m2"
    using NewLogarithmicMappingWithGamma_exists [OF g1, of "1 / 2 ^ 1022" 709 0] by auto
  have mu1: "multiplier m1 = 1 / ln G"
    using NewLogarithmicMapping_Inr(4) [OF m1] by (simp only: G_def)
  have mu2: "multiplier m2 = 1 / ln g"
    by (rule NewLogarithmicMappingWithGamma_Inr(3) [OF m2])
  note gap = multiplier_gap [OF g1 gG]
  have n1: "1 / 10 ^ 12 < lb"
    and n2: "1 / 10 ^ 12 * (g / (g - 1)) < lb"
    by (simp_all add: lb_def g_def G_def)
  have diff: "lb \<le> multiplier m2 - multiplier m1"
    using gap(1) by (simp add: lb_def mu1 mu2)
  have order: "multiplier m1 < multiplier m2"
    using gap(3) by (simp add: mu1 mu2)
  have abs: "\<bar>multiplier m1 - multiplier m2\<bar> = multiplier m2 - multiplier m1"
    using order by simp
  have far: "1 / 10 ^ 12 < \<bar>multiplier m1 - multiplier m2\<bar>"
    using n1 diff abs by linarith
  then have ne: "\<not> Equals m1 (Logarithmic m2)"
    by (simp add: Equals_Logarithmic)
  have "1 / 10 ^ 12 * (1 / ln g) \<le> 1 / 10 ^ 12 * (g / (g - 1))"
    using gap(2) by (intro mult_left_mono) simp_all
  then have "1 / 10 ^ 12 * multiplier m2 \<le> 1 / 10 ^ 12 * (g / (g - 1))"
    by (simp only: mu2)
  then have "1 / 10 ^ 12 * multiplier m2 < \<bar>multiplier m1 - multiplier m2\<bar>"
    using n2 diff abs by linarith
  moreover have "max (multiplier m1) (multiplier m2) = multiplier m2"
    using order by simp
  ultimately have rel: "1 / 10 ^ 12 * max (multiplier m1) (multiplier m2)
      < \<bar>multiplier m1 - multiplier m2\<bar>"
    by simp
  note m2' = m2 [unfolded g_def]
  have q: "round64 (round64 (1 + 3 / 2 ^ 20) / round64 (1 - 3 / 2 ^ 20)) = 549758959625 / 2 ^ 39"
    by (simp only: float64_gamma)
  have p1: "projr (NewLogarithmicMapping (1 / 2 ^ 1022) 709 (3 / 2 ^ 20)) = m1"
    by (simp only: m1 sum.sel)
  have p2: "projr (NewLogarithmicMappingWithGamma (1 / 2 ^ 1022) 709 (549758959625 / 2 ^ 39) 0) = m2"
    by (simp only: m2' sum.sel)
  have i1: "\<not> isl (NewLogarithmicMapping (1 / 2 ^ 1022) 709 (3 / 2 ^ 20))"
    unfolding m1 by simp
  have i2: "\<not> isl (NewLogarithmicMappingWithGamma (1 / 2 ^ 1022) 709 (549758959625 / 2 ^ 39) 0)"
    unfolding m2' by simp
  show ?thesis
    unfolding p1 p2 by (intro conjI) (rule q i1 i2 ne rel)+
qed

lemma fresh_sketch_empty:
  assumes "bins (store s) = []"
  shows "GetValueAtQuantile DenseStore_methods s q =
           (if q < 0 \<or> q > 1 then Inl ''quantile must be between 0 and 1''
            else Inl ''no such element exists'')"
    and "GetMaxValue DenseStore_methods s = Inl ''EmptyState''"
    and "GetMinValue DenseStore_methods s = Inl ''EmptyState''"
  using assms
  by (simp_all add: GetValueAtQuantile_def GetIndexAtQuantile_def GetCount_def GetMaxValue_def
      GetMinValue_def DenseStore_methods_def dense_TotalCount_def dense_MaxIndex_def
      dense_MinIndex_def)

lemma constructors_fresh:
  assumes "LogUnboundedDenseDDSketch mn eo a = Inr s
         \<or> NewDefaultDDSketch mn eo a = Inr s
         \<or> LogCollapsingLowestDenseDDSketch mn eo a maxNumBins = Inr s
         \<or> LogCollapsingHighestDenseDDSketch mn eo a maxNumBins = Inr s"
  shows "bins (store s) = []" and "NewLogarithmicMapping mn eo a = Inr (IndexMapping s)"
  using assms
  by (auto simp: LogUnboundedDenseDDSketch_def NewDefaultDDSketch_def
      LogCollapsingLowestDenseDDSketch_def LogCollapsingHighestDenseDDSketch_def
      NewDDSketch_def NewDenseStore_def NewCollapsingLowestDenseStore_def
      NewCollapsingHighestDenseStore_def split: sum.splits)

text \<open>
  Claim C8. On a sketch that a constructor has just returned, \<^verbatim>\<open>GetValueAtQuantile(q)\<close>
  for every \<open>q\<close> in \<open>[0,1]\<close>, \<^verbatim>\<open>GetMaxValue()\<close> and \<^verbatim>\<open>GetMinValue()\<close> return an error
  for the empty sketch and no number.
\<close>

theorem C8_fresh_sketch_EmptyState:
  assumes "LogUnboundedDenseDDSketch mn eo a = Inr s
         \<or> NewDefaultDDSketch mn eo a = Inr s
         \<or> LogCollapsingLowestDenseDDSketch mn eo a maxNumBins = Inr s
         \<or> LogCollapsingHighestDenseDDSketch mn eo a maxNumBins = Inr s"
    and "0 \<le> q" and "q \<le> 1"
  shows "GetValueAtQuantile DenseStore_methods s q = Inl ''no such element exists''
       \<and> GetMaxValue DenseStore_methods s = Inl ''EmptyState''
       \<and> GetMinValue DenseStore_methods s = Inl ''EmptyState''"
  using fresh_sketch_empty [OF constructors_fresh(1) [OF assms(1)]] assms(2,3)
  by simp

lemma half_sketch_exists:
  "\<exists>s. LogUnboundedDenseDDSketch (1 / 2 ^ 1022) 709 (1 / 2) = Inr s"
  by (simp add: LogUnboundedDenseDDSketch_def NewLogarithmicMapping_def Let_def)

theorem C8_fresh_sketch_EmptyState_witness:
  "\<exists>s. LogUnboundedDenseDDSketch (1 / 2 ^ 1022) 709 (1 / 2) = Inr s
       \<and> (0::real) \<le> 1 / 2 \<and> (1::real) / 2 \<le> 1
       \<and> GetValueAtQuantile DenseStore_methods s (1 / 2) = Inl ''no such element exists''
       \<and> GetMaxValue DenseStore_methods s = Inl ''EmptyState''
       \<and> GetMinValue DenseStore_methods s = Inl ''EmptyState''"
proof -
  obtain s where s: "LogUnboundedDenseDDSketch (1 / 2 ^ 1022) 709 (1 / 2) = Inr s"
    using half_sketch_exists by blast
  have q: "(0::real) \<le> 1 / 2" "(1::real) / 2 \<le> 1" by simp_all
  from C8_fresh_sketch_EmptyState [OF disjI1 [OF s] q] s q show ?thesis
    by blast
qed

theorem C3_AddWithCount_witness:
  "\<exists>s. LogUnboundedDenseDDSketch (1 / 2 ^ 1022) 709 (1 / 2) = Inr s
       \<and> AddWithCount DenseStore_methods s 1 1
           = (None, s \<lparr> store := \<lparr> bins = [(0, 1)], policy = Unbounded \<rparr> \<rparr>)
       \<and> fst (AddWithCount DenseStore_methods s (- 1) 1) \<noteq> None
       \<and> snd (AddWithCount DenseStore_methods s (- 1) 1) = s
       \<and> fst (AddWithCount DenseStore_methods s 1 (- 1)) \<noteq> None
       \<and> snd (AddWithCount DenseStore_methods s 1 (- 1)) = s"
proof -
  obtain s where s: "LogUnboundedDenseDDSketch (1 / 2 ^ 1022) 709 (1 / 2) = Inr s"
    using half_sketch_exists by blast
  note c = constructors_fresh [OF disjI1 [OF s]]
  note f = half_mapping_facts [OF c(2)]
  have st: "store s = \<lparr> bins = [], policy = Unbounded \<rparr>"
    using s by (auto simp: LogUnboundedDenseDDSketch_def NewDDSketch_def NewDenseStore_def
        split: sum.splits)
  have pos: "0 < MinIndexableValue (IndexMapping s)"
    using NewLogarithmicMapping_Inr(6) [OF c(2)]
    by (simp add: MinIndexableValue_def computeMin_pos)
  have ok: "fst (AddWithCount DenseStore_methods s 1 1) = None"
    using C3_AddWithCount [of DenseStore_methods s 1 1] f by (simp add: word_sless_alt)
  have "snd (AddWithCount DenseStore_methods s 1 1)
          = s \<lparr> store := \<lparr> bins = [(0, 1)], policy = Unbounded \<rparr> \<rparr>"
    using C3_AddWithCount [of DenseStore_methods s 1 1] ok f(3)
    by (simp add: DenseStore_methods_def dense_AddWithCount_def st)
  with ok have a1: "AddWithCount DenseStore_methods s 1 1
           = (None, s \<lparr> store := \<lparr> bins = [(0, 1)], policy = Unbounded \<rparr> \<rparr>)"
    by (simp add: prod_eq_iff)
  have e2: "fst (AddWithCount DenseStore_methods s (- 1) 1) \<noteq> None"
    using C3_AddWithCount [of DenseStore_methods s "- 1" 1] pos by simp
  then have u2: "snd (AddWithCount DenseStore_methods s (- 1) 1) = s"
    using C3_AddWithCount [of DenseStore_methods s "- 1" 1] by simp
  have e3: "fst (AddWithCount DenseStore_methods s 1 (- 1)) \<noteq> None"
    using C3_AddWithCount [of DenseStore_methods s 1 "- 1"] by (simp add: word_sless_alt)
  then have u3: "snd (AddWithCount DenseStore_methods s 1 (- 1)) = s"
    using C3_AddWithCount [of DenseStore_methods s 1 "- 1"] by simp
  from s a1 e2 u2 e3 u3 show ?thesis by blast
qed


lemma half_mapping_multiplier:
  assumes "NewLogarithmicMapping mn eo (1 / 2) = Inr m"
  shows "multiplier m \<le> 1"
proof -
  have "(1 + 1 / 2) / (1 - 1 / 2) = (3::real)" by simp
  then have mult: "multiplier m = 1 / ln 3"
    using NewLogarithmicMapping_Inr(4) [OF assms] by simp
  have "1 \<le> ln (3::real)"
    using exp_le by (simp add: ln_ge_iff)
  then show ?thesis
    by (simp add: mult)
qed

lemma fifth_mapping_multiplier:
  assumes "NewLogarithmicMapping mn eo (1 / 5) = Inr m"
  shows "2 \<le> multiplier m"
proof -
  define g :: real where "g = 3 / 2"
  have "(1 + 1 / 5) / (1 - 1 / 5) = g" by (simp add: g_def)
  then have mult: "multiplier m = 1 / ln g"
    using NewLogarithmicMapping_Inr(4) [OF assms] by simp
  have "ln g \<le> g - 1"
    by (rule ln_le_minus_one) (simp add: g_def)
  then have le: "ln g \<le> 1 / 2"
    by (simp add: g_def)
  have pos: "0 < ln g"
    by (rule ln_gt_zero) (simp add: g_def)
  have "2 * ln g \<le> 1"
    using le by simp
  then have "2 \<le> 1 / ln g"
    using pos by (simp add: pos_le_divide_eq)
  then show ?thesis
    by (simp add: mult)
qed

lemma half_sketch_store:
  assumes "LogUnboundedDenseDDSketch mn eo a = Inr s"
  shows "store s = \<lparr> bins = [], policy = Unbounded \<rparr>"
  using assms
  by (auto simp: LogUnboundedDenseDDSketch_def NewDDSketch_def NewDenseStore_def
      split: sum.splits)

lemma half_sketch_Add:
  assumes "LogUnboundedDenseDDSketch (1 / 2 ^ 1022) 709 (1 / 2) = Inr s"
  shows "Add DenseStore_methods s 1
           = (None, s \<lparr> store := \<lparr> bins = [(0, 1)], policy = Unbounded \<rparr> \<rparr>)"
proof -
  note c = constructors_fresh [OF disjI1 [OF assms]]
  note f = half_mapping_facts [OF c(2)]
  show ?thesis
    using f
    by (simp add: Add_def AddWithCount_def DenseStore_methods_def dense_AddWithCount_def
        half_sketch_store [OF assms] word_sless_alt)
qed


theorem C6_MergeWith_witness:
  "\<exists>s t. LogUnboundedDenseDDSketch (1 / 2 ^ 1022) 709 (1 / 2) = Inr s
       \<and> LogUnboundedDenseDDSketch (1 / 2 ^ 1022) 709 (1 / 5) = Inr t
       \<and> MergeWith DenseStore_methods s t
           = (Some ''cannot merge sketches with different index mappings'', s, t)
       \<and> MergeWith DenseStore_methods s (snd (Add DenseStore_methods s 1))
           = (None, snd (Add DenseStore_methods s 1), snd (Add DenseStore_methods s 1))"
proof -
  obtain s where s: "LogUnboundedDenseDDSketch (1 / 2 ^ 1022) 709 (1 / 2) = Inr s"
    using half_sketch_exists by blast
  obtain t where t: "LogUnboundedDenseDDSketch (1 / 2 ^ 1022) 709 (1 / 5) = Inr t"
    by (auto simp: LogUnboundedDenseDDSketch_def NewLogarithmicMapping_def Let_def)
  note cs = constructors_fresh [OF disjI1 [OF s]]
  note ct = constructors_fresh [OF disjI1 [OF t]]
  have "multiplier (IndexMapping s) \<le> 1" "2 \<le> multiplier (IndexMapping t)"
    using half_mapping_multiplier [OF cs(2)] fifth_mapping_multiplier [OF ct(2)] by simp_all
  then have ne: "\<not> Equals (IndexMapping s) (Logarithmic (IndexMapping t))"
    by (simp add: Equals_Logarithmic)
  have e1: "fst (MergeWith DenseStore_methods s t) \<noteq> None"
    using C6_MergeWith [of DenseStore_methods s t] ne by simp
  then have "snd (MergeWith DenseStore_methods s t) = (s, t)"
    using C6_MergeWith [of DenseStore_methods s t] by simp
  moreover have "fst (MergeWith DenseStore_methods s t)
                   = Some ''cannot merge sketches with different index mappings''"
    using ne by (simp add: MergeWith_def)
  ultimately have fail: "MergeWith DenseStore_methods s t
           = (Some ''cannot merge sketches with different index mappings'', s, t)"
    by (simp add: prod_eq_iff)
  define s1 where "s1 = snd (Add DenseStore_methods s 1)"
  have s1: "s1 = s \<lparr> store := \<lparr> bins = [(0, 1)], policy = Unbounded \<rparr> \<rparr>"
    by (simp add: s1_def half_sketch_Add [OF s])
  have eq: "Equals (IndexMapping s) (Logarithmic (IndexMapping s1))"
    by (simp add: s1 Equals_Logarithmic)
  have o1: "fst (MergeWith DenseStore_methods s s1) = None"
    using C6_MergeWith [of DenseStore_methods s s1] eq by simp
  then have "snd (MergeWith DenseStore_methods s s1) = (s1, s1)"
    using C6_MergeWith [of DenseStore_methods s s1]
    by (simp add: s1 half_sketch_store [OF s] DenseStore_methods_def dense_MergeWith_def
        dense_AddWithCount_def)
  with o1 have "MergeWith DenseStore_methods s s1 = (None, s1, s1)"
    by (simp add: prod_eq_iff)
  with s t fail show ?thesis
    unfolding s1_def by blast
qed

section \<open>The queries of the exact baseline\<close>

lemma Dataset_inv_NewDataset: "Dataset_inv NewDataset"
  by (simp add: Dataset_inv_def NewDataset_def)

lemma sint_succ:
  fixes c :: int32
  assumes "0 \<le> sint c" and "sint c < 2 ^ 31 - 1"
  shows "sint (c + 1) = sint c + 1"
  using assms by (simp add: sint_word_ariths signed_take_bit_int_eq_self)

lemma Dataset_inv_Add:
  assumes "Dataset_inv d" and "length (Values d) < 2 ^ 31 - 1"
  shows "Dataset_inv (Add_Dataset d v)"
proof -
  from assms have "0 \<le> sint (Count d)" "sint (Count d) < 2 ^ 31 - 1"
    by (simp_all add: Dataset_inv_def)
  then have "sint (Count d + 1) = sint (Count d) + 1"
    by (rule sint_succ)
  with assms(1) show ?thesis
    by (simp add: Dataset_inv_def Add_Dataset_def)
qed

lemma sort_Dataset_eq:
  assumes "Dataset_inv d"
  shows "sort_Dataset d = d \<lparr> Values := sort (Values d), sorted_flag := True \<rparr>"
proof (cases "sorted_flag d")
  case True
  with assms have "sorted (Values d)"
    by (simp add: Dataset_inv_def)
  then have "sort (Values d) = Values d"
    by (rule sorted_sort_id)
  with True show ?thesis
    by (simp add: sort_Dataset_def)
next
  case False
  then show ?thesis
    by (simp add: sort_Dataset_def)
qed

lemma Dataset_inv_sort:
  assumes "Dataset_inv d"
  shows "Dataset_inv (sort_Dataset d)"
  using assms by (simp add: sort_Dataset_eq Dataset_inv_def)

lemma Dataset_inv_Quantile:
  assumes "Dataset_inv d" and "Quantile d q = Inr (r, d')"
  shows "Dataset_inv d'"
proof -
  have "d' = d \<or> d' = sort_Dataset d"
    using assms(2)
    by (auto simp: Quantile_def LowerQuantile_def Let_def split: if_splits sum.splits)
  then show ?thesis
    using assms(1) Dataset_inv_sort by auto
qed

lemma floor_rank_bounds:
  fixes q :: real and n :: nat
  assumes "0 \<le> q" "q \<le> 1" "0 < n" "int n < 2 ^ 31"
  shows "0 \<le> \<lfloor>round64 (q * real_of_int (int n - 1))\<rfloor>"
    and "\<lfloor>round64 (q * real_of_int (int n - 1))\<rfloor> < int n"
    and "\<lfloor>q * real_of_int (int n - 1)\<rfloor> \<le> \<lfloor>round64 (q * real_of_int (int n - 1))\<rfloor>"
    and "\<lfloor>round64 (q * real_of_int (int n - 1))\<rfloor> \<le> \<lceil>q * real_of_int (int n - 1)\<rceil>"
proof -
  define x where "x = q * real_of_int (int n - 1)"
  have n1: "0 \<le> real_of_int (int n - 1)"
    using assms(3) by simp
  then have x0: "0 \<le> x"
    using assms(1) by (simp add: x_def)
  have "x \<le> 1 * real_of_int (int n - 1)"
    unfolding x_def using assms(2) n1 by (rule mult_right_mono)
  then have xn: "x \<le> real_of_int (int n - 1)"
    by simp
  have small: "int n - 1 < 2 ^ 53"
    using assms(4) by simp
  have "real_of_int (int n - 1) < real_of_int (2 ^ 53)"
    using small by (simp only: of_int_less_iff)
  with xn have x53: "x < 2 ^ 53"
    by simp
  have "0 \<le> round64 x"
    using x0 by (rule round64_nonneg)
  then show "0 \<le> \<lfloor>round64 (q * real_of_int (int n - 1))\<rfloor>"
    by (simp add: x_def)
  have "round64 x \<le> real_of_int (int n - 1)"
    using x0 xn small by (rule round64_le_int)
  then have "round64 x < real_of_int (int n)"
    by simp
  then show "\<lfloor>round64 (q * real_of_int (int n - 1))\<rfloor> < int n"
    by (simp add: floor_less_iff x_def)
  have f0: "0 \<le> \<lfloor>x\<rfloor>"
    using x0 by simp
  have "real_of_int \<lfloor>x\<rfloor> \<le> round64 x"
    using f0 of_int_floor_le x53 by (rule round64_ge_int)
  then show "\<lfloor>q * real_of_int (int n - 1)\<rfloor> \<le> \<lfloor>round64 (q * real_of_int (int n - 1))\<rfloor>"
    by (simp add: le_floor_iff x_def)
  have "\<lceil>x\<rceil> \<le> int n - 1"
    using xn by (simp only: ceiling_le_iff)
  then have "\<lceil>x\<rceil> < 2 ^ 53"
    using small by linarith
  with x0 have "round64 x \<le> real_of_int \<lceil>x\<rceil>"
    by (intro round64_le_int) simp_all
  then have "round64 x < real_of_int \<lceil>x\<rceil> + 1"
    by linarith
  then have "\<lfloor>round64 x\<rfloor> \<le> \<lceil>x\<rceil>"
    by (simp only: floor_le_iff)
  then show "\<lfloor>round64 (q * real_of_int (int n - 1))\<rfloor> \<le> \<lceil>q * real_of_int (int n - 1)\<rceil>"
    by (simp add: x_def)
qed

text \<open>
  Claim C9, amended. For a dataset with \<open>n > 0\<close> values and \<open>q\<close> in \<open>[0,1]\<close>,
  \<^verbatim>\<open>Quantile(q)\<close> returns the element of the values in increasing order at the position
  that is the floor of the \<^verbatim>\<open>float64\<close> product \<open>q * (n - 1)\<close>. That position is
  \<open>floor(q * (n - 1))\<close>, or the next one where the product is rounded up to an integer.
  The query sorts the stored \<^verbatim>\<open>Values\<close> themselves: after the call \<^verbatim>\<open>Values\<close> is the
  increasing arrangement of what it was, and \<^verbatim>\<open>sorted\<close> is set.
\<close>

theorem C9_Quantile_sorts_in_place:
  assumes "Dataset_inv d" and "Values d \<noteq> []" and "0 \<le> q" and "q \<le> 1"
  shows "Quantile d q =
           Inr (Finite (sort (Values d)
                          ! nat \<lfloor>round64 (q * real_of_int (int (length (Values d)) - 1))\<rfloor>),
                d \<lparr> Values := sort (Values d), sorted_flag := True \<rparr>)
       \<and> \<lfloor>q * real_of_int (int (length (Values d)) - 1)\<rfloor>
           \<le> \<lfloor>round64 (q * real_of_int (int (length (Values d)) - 1))\<rfloor>
       \<and> \<lfloor>round64 (q * real_of_int (int (length (Values d)) - 1))\<rfloor>
           \<le> \<lceil>q * real_of_int (int (length (Values d)) - 1)\<rceil>"
proof -
  define n where "n = length (Values d)"
  have n: "0 < n"
    using assms(2) by (simp add: n_def)
  have cnt: "sint (Count d) = int n"
    using assms(1) by (simp add: Dataset_inv_def n_def)
  have "sint (Count d) < 2 ^ 31"
    using sint_lt [of "Count d"] by simp
  then have n31: "int n < 2 ^ 31"
    by (simp add: cnt)
  have pos: "0 <s Count d"
    using n cnt by (simp add: word_sless_alt)
  then have nz: "Count d \<noteq> 0"
    by auto
  have pred: "sint (Count d - 1) = int n - 1"
    using sint_pred [OF pos] cnt by simp
  note b = floor_rank_bounds [OF assms(3,4) n n31]
  have "slice_index (sort (Values d)) \<lfloor>round64 (q * real_of_int (int n - 1))\<rfloor>
          = Inr (sort (Values d) ! nat \<lfloor>round64 (q * real_of_int (int n - 1))\<rfloor>)"
    using b(1,2) by (simp add: slice_index_def n_def)
  moreover have "real_of_int (sint (Count d - 1)) = real_of_int (int n - 1)"
    by (simp only: pred)
  ultimately have "Quantile d q =
           Inr (Finite (sort (Values d) ! nat \<lfloor>round64 (q * real_of_int (int n - 1))\<rfloor>),
                d \<lparr> Values := sort (Values d), sorted_flag := True \<rparr>)"
    using assms(3,4) nz
    by (simp add: Quantile_def LowerQuantile_def sort_Dataset_eq [OF assms(1)] go_int_def
        Let_def n_def [symmetric] del: of_int_sint of_int_diff)
  with b(3,4) show ?thesis
    unfolding n_def by simp
qed

text \<open>
  An instance is the query \<^verbatim>\<open>Quantile(0.7)\<close> on eleven values: the exact product is just
  below 7, with floor 6; the machine's product is 7, and the element returned is the one at
  position 7.
\<close>

theorem C9_Quantile_sorts_in_place_witness:
  "Dataset_inv \<lparr> Values = [10, 9, 8, 7, 6, 5, 4, 3, 2, 1, 0], Count = 11, sorted_flag = False \<rparr>
   \<and> Values \<lparr> Values = [10, 9, 8, 7, 6, 5, 4, 3, 2, 1, 0], Count = 11, sorted_flag = False \<rparr> \<noteq> []
   \<and> (0::real) \<le> 3152519739159347 / 2 ^ 52 \<and> (3152519739159347::real) / 2 ^ 52 \<le> 1
   \<and> Quantile \<lparr> Values = [10, 9, 8, 7, 6, 5, 4, 3, 2, 1, 0], Count = 11, sorted_flag = False \<rparr>
        (3152519739159347 / 2 ^ 52)
       = Inr (Finite 7,
              \<lparr> Values = [0, 1, 2, 3, 4, 5, 6, 7, 8, 9, 10], Count = 11, sorted_flag = True \<rparr>)
   \<and> \<lfloor>(3152519739159347::real) / 2 ^ 52 * 10\<rfloor> = 6"
proof -
  define d where
    "d = \<lparr> Values = [10, 9, 8, 7, 6, 5, 4, 3, 2, 1, 0::real], Count = 11, sorted_flag = False \<rparr>"
  have inv: "Dataset_inv d"
    by (simp add: d_def Dataset_inv_def)
  have ne: "Values d \<noteq> []"
    by (simp add: d_def)
  have q: "(0::real) \<le> 3152519739159347 / 2 ^ 52" "(3152519739159347::real) / 2 ^ 52 \<le> 1"
    by simp_all
  have srt: "sort (Values d) = [0, 1, 2, 3, 4, 5, 6, 7, 8, 9, 10]"
    by (simp add: d_def)
  have len: "real_of_int (int (length (Values d)) - 1) = 10"
    by (simp add: d_def)
  from C9_Quantile_sorts_in_place [OF inv ne q]
  have "Quantile d (3152519739159347 / 2 ^ 52)
          = Inr (Finite 7,
                 \<lparr> Values = [0, 1, 2, 3, 4, 5, 6, 7, 8, 9, 10], Count = 11, sorted_flag = True \<rparr>)"
    unfolding len round64_seven_tenths srt by (simp add: d_def)
  moreover have "\<lfloor>(3152519739159347::real) / 2 ^ 52 * 10\<rfloor> = 6"
    by simp
  ultimately show ?thesis
    using inv ne q unfolding d_def by simp
qed

text \<open>
  The claim C9 as first stated has the query work on a copy and leave \<^verbatim>\<open>Values\<close> in its
  order. After \<^verbatim>\<open>Add(2)\<close> and \<^verbatim>\<open>Add(1)\<close> the stored values are \<open>[2, 1]\<close>; after
  \<^verbatim>\<open>Quantile(0)\<close> they are \<open>[1, 2]\<close>.
\<close>

theorem C9_Quantile_reorders_Values:
  "Values (Add_Dataset (Add_Dataset NewDataset 2) 1) = [2, 1]
   \<and> Quantile (Add_Dataset (Add_Dataset NewDataset 2) 1) 0
       = Inr (Finite 1, \<lparr> Values = [1, 2], Count = 2, sorted_flag = True \<rparr>)
   \<and> Values \<lparr> Values = [1, 2], Count = 2, sorted_flag = True \<rparr>
       \<noteq> Values (Add_Dataset (Add_Dataset NewDataset 2) 1)"
  by (simp add: Quantile_def LowerQuantile_def sort_Dataset_def Add_Dataset_def NewDataset_def
      slice_index_def go_int_def round64_def Let_def)

text \<open>
  Claim C10. On a dataset with no values \<^verbatim>\<open>Min()\<close> and \<^verbatim>\<open>Max()\<close> index the slice out
  of its range, which is a run-time panic, while \<^verbatim>\<open>Quantile\<close> returns NaN and leaves the
  dataset as it is.
\<close>

theorem C10_Min_Max_panic_on_empty:
  assumes "Values d = []" and "Count d = 0"
  shows "Min_Dataset d = Inl ''index out of range''
       \<and> Max_Dataset d = Inl ''index out of range''
       \<and> Quantile d q = Inr (NaN, d)"
  using assms
  by (simp add: Min_Dataset_def Max_Dataset_def Quantile_def LowerQuantile_def sort_Dataset_def
      slice_index_def Let_def)

theorem C10_Min_Max_panic_on_empty_witness:
  "Values NewDataset = [] \<and> Count NewDataset = 0
   \<and> Min_Dataset NewDataset = Inl ''index out of range''
   \<and> Max_Dataset NewDataset = Inl ''index out of range''
   \<and> Quantile NewDataset (1 / 2) = Inr (NaN, NewDataset)"
proof -
  have v: "Values NewDataset = []" and c: "Count NewDataset = 0"
    by (simp_all add: NewDataset_def)
  from C10_Min_Max_panic_on_empty [OF v c, of "1 / 2"] v c show ?thesis
    by simp
qed

end
